theory Spec2Isabelle
  imports Main
begin

section \<open>Values thrown by the services\<close>

text \<open>
  The services of \<^verbatim>\<open>src/js/menu.js\<close> and \<^verbatim>\<open>src/js/addon.js\<close> throw either the
  structured error object that the row store handed back (\<^verbatim>\<open>if (error) throw error\<close>),
  or a JavaScript error of their own (\<^verbatim>\<open>new Error('Order not found')\<close>, or the
  \<^verbatim>\<open>TypeError\<close> of a property read on \<^verbatim>\<open>null\<close>). The store's errors are
  \<^item> \<open>NotFound\<close>: a \<^verbatim>\<open>.single()\<close> request matched no row (the referenced entity is absent),
  \<^item> \<open>MultipleRows\<close>: a \<^verbatim>\<open>.single()\<close> request matched more than one row,
  \<^item> \<open>StoreFailure msg\<close>: any other failure reported by the store (transport, constraint, ...).
\<close>

datatype error =
    NotFound
  | MultipleRows
  | StoreFailure string
  | JsError string
  | TypeError

section \<open>Rows and tables\<close>

text \<open>
  Identifiers are opaque and generated by the store; they are modelled as natural
  numbers. Prices and amounts are integers (minor units): no function modelled here
  computes with them. Columns that none of the modelled functions reads or writes are
  left out of the rows.
\<close>

type_synonym ident = nat

record category =
  cat_id :: ident
  cat_restaurant_id :: ident
  cat_name :: string
  cat_display_order :: int

record menu_item =
  mi_id :: ident
  mi_category_id :: ident
  mi_name :: string
  mi_price :: int
  mi_is_available :: bool
  mi_created_at :: nat

record variant =
  v_id :: ident
  v_menu_item_id :: ident
  v_name :: string
  v_additional_price :: int
  v_image_url :: string
  v_display_order :: int
  v_user_id :: "ident option"
  v_addon_groups :: "ident list option"
  v_updated_at :: "nat option"

record addon_group =
  ag_id :: ident
  ag_restaurant_id :: ident
  ag_name :: string

record addon =
  ad_id :: ident
  ad_addon_group_id :: ident
  ad_name :: string
  ad_price :: int

record order_row =
  o_id :: ident
  o_restaurant_id :: ident
  o_table_id :: "ident option"
  o_order_type :: string
  o_customer_notes :: string
  o_status :: string
  o_total_amount :: int
  o_order_number :: string

record order_item =
  oi_id :: ident
  oi_order_id :: ident
  oi_menu_item_id :: ident
  oi_quantity :: int
  oi_item_price :: int
  oi_special_instructions :: string

record order_item_addon =
  oia_id :: ident
  oia_order_item_id :: ident
  oia_addon_name :: string
  oia_addon_price :: int
  oia_quantity :: int

record database =
  categories :: "category list"
  menu_items :: "menu_item list"
  menu_item_variants :: "variant list"
  addon_groups :: "addon_group list"
  addons :: "addon list"
  orders :: "order_row list"
  order_items :: "order_item list"
  order_item_addons :: "order_item_addon list"

section \<open>The world the services run in\<close>

text \<open>
  A request to the row store is recorded by its kind, its table and its filter.
\<close>

datatype cond = Eq string ident | In string "ident list"

datatype call =
    Select string cond
  | SelectSingle string cond
  | Insert string nat
  | InsertSelectSingle string
  | Update string cond
  | UpdateSelectSingle string cond
  | Delete string cond

text \<open>
  The world holds the remote tables, the store's identifier generator, the clock read by
  \<^verbatim>\<open>Date.now()\<close> and \<^verbatim>\<open>new Date()\<close>, the user that
  \<^verbatim>\<open>AuthService.getCurrentUser()\<close> returns (\<open>None\<close> for \<^verbatim>\<open>null\<close>; the function
  never throws), the outcomes the environment has in stock for the coming requests
  (\<open>Some e\<close>: the request fails with \<open>e\<close>; \<open>None\<close> or an exhausted list: the store
  answers), the requests issued so far, and what \<^verbatim>\<open>console.error\<close> has printed. The
  informational \<^verbatim>\<open>console.log\<close> output is not modelled.
\<close>

record world =
  db :: database
  next_id :: ident
  clock :: nat
  current_user :: "ident option"
  pending :: "error option list"
  trace :: "call list"
  console :: "(string \<times> error) list"

type_synonym 'a result = "(error + 'a) \<times> world"

text \<open>A table of the store: its name, how to read its rows and how to replace them.\<close>

record 'r tab =
  tname :: string
  rows_of :: "database \<Rightarrow> 'r list"
  put_rows :: "'r list \<Rightarrow> database \<Rightarrow> database"

definition categories_t :: "category tab" where
  "categories_t = \<lparr>tname = ''categories'', rows_of = categories,
     put_rows = (\<lambda>rs d. d\<lparr>categories := rs\<rparr>)\<rparr>"

definition menu_items_t :: "menu_item tab" where
  "menu_items_t = \<lparr>tname = ''menu_items'', rows_of = menu_items,
     put_rows = (\<lambda>rs d. d\<lparr>menu_items := rs\<rparr>)\<rparr>"

definition menu_item_variants_t :: "variant tab" where
  "menu_item_variants_t = \<lparr>tname = ''menu_item_variants'', rows_of = menu_item_variants,
     put_rows = (\<lambda>rs d. d\<lparr>menu_item_variants := rs\<rparr>)\<rparr>"

definition addon_groups_t :: "addon_group tab" where
  "addon_groups_t = \<lparr>tname = ''addon_groups'', rows_of = addon_groups,
     put_rows = (\<lambda>rs d. d\<lparr>addon_groups := rs\<rparr>)\<rparr>"

definition addons_t :: "addon tab" where
  "addons_t = \<lparr>tname = ''addons'', rows_of = addons,
     put_rows = (\<lambda>rs d. d\<lparr>addons := rs\<rparr>)\<rparr>"

definition orders_t :: "order_row tab" where
  "orders_t = \<lparr>tname = ''orders'', rows_of = orders,
     put_rows = (\<lambda>rs d. d\<lparr>orders := rs\<rparr>)\<rparr>"

definition order_items_t :: "order_item tab" where
  "order_items_t = \<lparr>tname = ''order_items'', rows_of = order_items,
     put_rows = (\<lambda>rs d. d\<lparr>order_items := rs\<rparr>)\<rparr>"

definition order_item_addons_t :: "order_item_addon tab" where
  "order_item_addons_t = \<lparr>tname = ''order_item_addons'', rows_of = order_item_addons,
     put_rows = (\<lambda>rs d. d\<lparr>order_item_addons := rs\<rparr>)\<rparr>"

section \<open>The row store client\<close>

text \<open>
  Modelled from the spec: the row store client \<^verbatim>\<open>supabase\<close> (imported from
  \<^verbatim>\<open>./supabase.js\<close>, which is not among the sources). Section 6 of the specification
  gives its interface: per-table select, insert, update and delete with an equality (or
  membership) filter on a column and an optional ordering on one column, each answering
  with either its rows or a structured error. A request that fails changes no table. A
  request consumes the next outcome the environment has in stock.
\<close>

definition store_call :: "call \<Rightarrow> world \<Rightarrow> error option \<times> world" where
  "store_call c w =
     (case pending w of
        [] \<Rightarrow> (None, w\<lparr>trace := trace w @ [c]\<rparr>)
      | f # fs \<Rightarrow> (f, w\<lparr>pending := fs, trace := trace w @ [c]\<rparr>))"

text \<open>Modelled from the spec: the filters \<^verbatim>\<open>.eq(column, value)\<close> and \<^verbatim>\<open>.in(column, values)\<close>.\<close>

fun holds :: "cond \<Rightarrow> ident \<Rightarrow> bool" where
  "holds (Eq c v) x = (x = v)"
| "holds (In c vs) x = (x \<in> set vs)"

text \<open>
  Modelled from the spec: \<^verbatim>\<open>.single()\<close>, which answers with the one row of the result and
  with an error when the result does not hold exactly one row.
\<close>

definition single :: "'r list \<Rightarrow> error + 'r" where
  "single rs = (case rs of [] \<Rightarrow> Inl NotFound | [r] \<Rightarrow> Inr r | _ \<Rightarrow> Inl MultipleRows)"

text \<open>
  Modelled from the spec: \<^verbatim>\<open>.from(t).select(..).eq(col, v)\<close>, answering \<^verbatim>\<open>{data, error}\<close>.
\<close>

definition select_where ::
  "'r tab \<Rightarrow> ('r \<Rightarrow> ident) \<Rightarrow> cond \<Rightarrow> world \<Rightarrow> ('r list option \<times> error option) \<times> world" where
  "select_where t col c w =
     (case store_call (Select (tname t) c) w of
        (Some e, w1) \<Rightarrow> ((None, Some e), w1)
      | (None, w1) \<Rightarrow> ((Some (filter (\<lambda>r. holds c (col r)) (rows_of t (db w1))), None), w1))"

text \<open>
  Modelled from the spec: \<^verbatim>\<open>.from(t).select(..).eq(col, v).order(key, {ascending})\<close>. The store
  orders on the declared key only; among rows with equal keys the model keeps the order
  of the table (one of the orders the store may answer with).
\<close>

definition select_where_order ::
  "'r tab \<Rightarrow> ('r \<Rightarrow> ident) \<Rightarrow> cond \<Rightarrow> ('r \<Rightarrow> 'k::linorder) \<Rightarrow> bool \<Rightarrow> world
     \<Rightarrow> ('r list option \<times> error option) \<times> world" where
  "select_where_order t col c key ascending w =
     (case store_call (Select (tname t) c) w of
        (Some e, w1) \<Rightarrow> ((None, Some e), w1)
      | (None, w1) \<Rightarrow>
          (let rs = sort_key key (filter (\<lambda>r. holds c (col r)) (rows_of t (db w1)))
           in ((Some (if ascending then rs else rev rs), None), w1)))"

text \<open>Modelled from the spec: \<^verbatim>\<open>.from(t).select(..).eq(col, v).single()\<close>.\<close>

definition select_single ::
  "'r tab \<Rightarrow> ('r \<Rightarrow> ident) \<Rightarrow> cond \<Rightarrow> world \<Rightarrow> ('r option \<times> error option) \<times> world" where
  "select_single t col c w =
     (case store_call (SelectSingle (tname t) c) w of
        (Some e, w1) \<Rightarrow> ((None, Some e), w1)
      | (None, w1) \<Rightarrow>
          (case single (filter (\<lambda>r. holds c (col r)) (rows_of t (db w1))) of
             Inl e \<Rightarrow> ((None, Some e), w1)
           | Inr r \<Rightarrow> ((Some r, None), w1)))"

text \<open>Modelled from the spec: \<^verbatim>\<open>.from(t).delete().eq(col, v)\<close>, answering \<^verbatim>\<open>{error}\<close>.\<close>

definition delete_where ::
  "'r tab \<Rightarrow> ('r \<Rightarrow> ident) \<Rightarrow> cond \<Rightarrow> world \<Rightarrow> error option \<times> world" where
  "delete_where t col c w =
     (case store_call (Delete (tname t) c) w of
        (Some e, w1) \<Rightarrow> (Some e, w1)
      | (None, w1) \<Rightarrow>
          (None, w1\<lparr>db := put_rows t (filter (\<lambda>r. \<not> holds c (col r)) (rows_of t (db w1))) (db w1)\<rparr>))"

text \<open>
  Modelled from the spec: \<^verbatim>\<open>.from(t).update(fields).eq(col, v)\<close>, answering \<^verbatim>\<open>{error}\<close>; an
  update that matches no row is not an error.
\<close>

definition update_where ::
  "'r tab \<Rightarrow> ('r \<Rightarrow> ident) \<Rightarrow> cond \<Rightarrow> ('r \<Rightarrow> 'r) \<Rightarrow> world \<Rightarrow> error option \<times> world" where
  "update_where t col c upd w =
     (case store_call (Update (tname t) c) w of
        (Some e, w1) \<Rightarrow> (Some e, w1)
      | (None, w1) \<Rightarrow>
          (None, w1\<lparr>db := put_rows t
             (map (\<lambda>r. if holds c (col r) then upd r else r) (rows_of t (db w1))) (db w1)\<rparr>))"

text \<open>
  Modelled from the spec: \<^verbatim>\<open>.from(t).update(fields).eq(col, v).select().single()\<close>: the
  answer is the one updated row; when the filter does not match exactly one row the request
  fails with the error of \<^verbatim>\<open>.single()\<close> and, as every failed request, changes nothing.
\<close>

definition update_where_single ::
  "'r tab \<Rightarrow> ('r \<Rightarrow> ident) \<Rightarrow> cond \<Rightarrow> ('r \<Rightarrow> 'r) \<Rightarrow> world
     \<Rightarrow> ('r option \<times> error option) \<times> world" where
  "update_where_single t col c upd w =
     (case store_call (UpdateSelectSingle (tname t) c) w of
        (Some e, w1) \<Rightarrow> ((None, Some e), w1)
      | (None, w1) \<Rightarrow>
          (case single (map upd (filter (\<lambda>r. holds c (col r)) (rows_of t (db w1)))) of
             Inl e \<Rightarrow> ((None, Some e), w1)
           | Inr r \<Rightarrow>
               ((Some r, None),
                w1\<lparr>db := put_rows t
                   (map (\<lambda>r. if holds c (col r) then upd r else r) (rows_of t (db w1))) (db w1)\<rparr>)))"

text \<open>
  Modelled from the spec: the identifiers of inserted rows. The store gives each new row
  the next identifier; a row to insert is therefore a function of its identifier.
\<close>

definition fresh_rows :: "ident \<Rightarrow> (ident \<Rightarrow> 'r) list \<Rightarrow> 'r list" where
  "fresh_rows n bs = map (\<lambda>(i, b). b i) (enumerate n bs)"

text \<open>Modelled from the spec: \<^verbatim>\<open>.from(t).insert(rows)\<close>, answering \<^verbatim>\<open>{error}\<close>.\<close>

definition insert_rows :: "'r tab \<Rightarrow> (ident \<Rightarrow> 'r) list \<Rightarrow> world \<Rightarrow> error option \<times> world" where
  "insert_rows t bs w =
     (case store_call (Insert (tname t) (length bs)) w of
        (Some e, w1) \<Rightarrow> (Some e, w1)
      | (None, w1) \<Rightarrow>
          (None, w1\<lparr>db := put_rows t (rows_of t (db w1) @ fresh_rows (next_id w1) bs) (db w1),
                     next_id := next_id w1 + length bs\<rparr>))"

text \<open>Modelled from the spec: \<^verbatim>\<open>.from(t).insert([row]).select().single()\<close>.\<close>

definition insert_single ::
  "'r tab \<Rightarrow> (ident \<Rightarrow> 'r) \<Rightarrow> world \<Rightarrow> ('r option \<times> error option) \<times> world" where
  "insert_single t b w =
     (case store_call (InsertSelectSingle (tname t)) w of
        (Some e, w1) \<Rightarrow> ((None, Some e), w1)
      | (None, w1) \<Rightarrow>
          ((Some (b (next_id w1)), None),
           w1\<lparr>db := put_rows t (rows_of t (db w1) @ [b (next_id w1)]) (db w1),
              next_id := Suc (next_id w1)\<rparr>))"

section \<open>Console and exceptions\<close>

definition console_error :: "string \<Rightarrow> error \<Rightarrow> world \<Rightarrow> world" where
  "console_error msg e w = w\<lparr>console := console w @ [(msg, e)]\<rparr>"

text \<open>
  \<^verbatim>\<open>try { body } catch (error) { console.error(msg, error); throw error; }\<close>
\<close>

definition try_catch :: "string \<Rightarrow> 'a result \<Rightarrow> 'a result" where
  "try_catch msg r =
     (case r of
        (Inl e, w) \<Rightarrow> (Inl e, console_error msg e w)
      | (Inr x, w) \<Rightarrow> (Inr x, w))"

text \<open>Decimal rendering of a number, as JavaScript's \<^verbatim>\<open>toString()\<close> and template strings do.\<close>

fun dec :: "nat \<Rightarrow> string" where
  "dec n = (if n < 10 then [char_of (48 + n)] else dec (n div 10) @ [char_of (48 + n mod 10)])"

declare dec.simps [simp del]

section \<open>MenuService (src/js/menu.js)\<close>

text \<open>\<^verbatim>\<open>MenuService.deleteCategory\<close>, lines 57-69.\<close>

definition deleteCategory :: "ident \<Rightarrow> world \<Rightarrow> unit result" where
  "deleteCategory categoryId w =
     try_catch ''Error deleting category:''
       (case delete_where categories_t cat_id (Eq ''id'' categoryId) w of
          (Some error, w1) \<Rightarrow> (Inl error, w1)
        | (None, w1) \<Rightarrow> (Inr (), w1))"

text \<open>
  \<^verbatim>\<open>MenuService.getVariantAddonGroups\<close>, lines 310-328: the group identifiers are read from
  the array column of the variant row; \<^verbatim>\<open>data.addon_groups || []\<close> turns a \<^verbatim>\<open>null\<close> column
  into the empty list.
\<close>

datatype group_ref = GroupRef (addon_group_id: ident)

definition getVariantAddonGroups :: "ident \<Rightarrow> world \<Rightarrow> group_ref list result" where
  "getVariantAddonGroups variantId w =
     try_catch ''Error fetching variant addon groups:''
       (case select_single menu_item_variants_t v_id (Eq ''id'' variantId) w of
          ((_, Some error), w1) \<Rightarrow> (Inl error, w1)
        | ((None, None), w1) \<Rightarrow> (Inl TypeError, w1)
        | ((Some data, None), w1) \<Rightarrow>
            (Inr (map GroupRef (case v_addon_groups data of None \<Rightarrow> [] | Some gs \<Rightarrow> gs)), w1))"

text \<open>
  \<^verbatim>\<open>MenuService.updateVariantAddonGroups\<close>, lines 331-346. The time stamp
  \<^verbatim>\<open>new Date().toISOString()\<close> is kept as the clock value it renders.
\<close>

definition updateVariantAddonGroups :: "ident \<Rightarrow> ident list \<Rightarrow> world \<Rightarrow> unit result" where
  "updateVariantAddonGroups variantId addonGroupIds w =
     try_catch ''Error updating variant addon groups:''
       (case update_where menu_item_variants_t v_id (Eq ''id'' variantId)
               (\<lambda>r. r\<lparr>v_addon_groups := Some addonGroupIds, v_updated_at := Some (clock w)\<rparr>) w of
          (Some error, w1) \<Rightarrow> (Inl error, w1)
        | (None, w1) \<Rightarrow> (Inr (), w1))"

text \<open>
  The loop \<^verbatim>\<open>for (let variant of variants) { try { ... } catch (error) { ... } }\<close> of lines
  252-260, and again of lines 91-99: each variant's \<^verbatim>\<open>addon_groups\<close> is overwritten with
  the resolved identifiers, or with \<^verbatim>\<open>[]\<close> when the resolution throws, in which case the
  error is printed and the loop goes on.
\<close>

fun load_addon_groups :: "variant list \<Rightarrow> world \<Rightarrow> variant list \<times> world" where
  "load_addon_groups [] w = ([], w)"
| "load_addon_groups (variant # rest) w =
     (case getVariantAddonGroups (v_id variant) w of
        (Inr variantAddonGroups, w1) \<Rightarrow>
          (case load_addon_groups rest w1 of
             (vs, w2) \<Rightarrow>
               (variant\<lparr>v_addon_groups := Some (map addon_group_id variantAddonGroups)\<rparr> # vs, w2))
      | (Inl error, w1) \<Rightarrow>
          (case load_addon_groups rest
                  (console_error (''Error loading addon groups for variant '' @ dec (v_id variant) @ '':'')
                     error w1) of
             (vs, w2) \<Rightarrow> (variant\<lparr>v_addon_groups := Some []\<rparr> # vs, w2)))"

text \<open>\<^verbatim>\<open>MenuService.getMenuItemVariants\<close>, lines 238-268.\<close>

definition getMenuItemVariants :: "ident \<Rightarrow> world \<Rightarrow> variant list result" where
  "getMenuItemVariants menuItemId w =
     try_catch ''Error fetching menu item variants:''
       (case select_where_order menu_item_variants_t v_menu_item_id
               (Eq ''menu_item_id'' menuItemId) v_display_order True w of
          ((_, Some error), w1) \<Rightarrow> (Inl error, w1)
        | ((data, None), w1) \<Rightarrow>
            (let variants = (case data of None \<Rightarrow> [] | Some d \<Rightarrow> d)
             in case load_addon_groups variants w1 of (vs, w2) \<Rightarrow> (Inr vs, w2)))"

text \<open>
  \<^verbatim>\<open>MenuService.saveMenuItemVariants\<close>, lines 270-307. The rows to insert carry the six
  columns the source lists; the store fills the identifier, and leaves \<^verbatim>\<open>addon_groups\<close> and
  \<^verbatim>\<open>updated_at\<close> \<^verbatim>\<open>null\<close>.
\<close>

record variant_input =
  vi_name :: string
  vi_additional_price :: int
  vi_image_url :: string

definition saveMenuItemVariants :: "ident \<Rightarrow> variant_input list \<Rightarrow> world \<Rightarrow> bool result" where
  "saveMenuItemVariants menuItemId variants w =
     try_catch ''Error saving menu item variants:''
       (let userId = current_user w
        in case delete_where menu_item_variants_t v_menu_item_id (Eq ''menu_item_id'' menuItemId) w of
             (Some deleteError, w1) \<Rightarrow> (Inl deleteError, w1)
           | (None, w1) \<Rightarrow>
               if length variants > 0 then
                 (let variantsToInsert =
                        map (\<lambda>(index, variant) id.
                               \<lparr>v_id = id, v_menu_item_id = menuItemId, v_name = vi_name variant,
                                v_additional_price = vi_additional_price variant,
                                v_image_url = vi_image_url variant,
                                v_display_order = int index, v_user_id = userId,
                                v_addon_groups = None, v_updated_at = None\<rparr>)
                            (enumerate 0 variants)
                  in case insert_rows menu_item_variants_t variantsToInsert w1 of
                       (Some insertError, w2) \<Rightarrow> (Inl insertError, w2)
                     | (None, w2) \<Rightarrow> (Inr True, w2))
               else (Inr True, w1))"




section \<open>OrdersService (src/js/menu.js)\<close>

record order_item_input =
  in_menu_item_id :: ident
  in_quantity :: int
  in_item_price :: int
  in_special_instructions :: string

record order_data =
  od_restaurant_id :: ident
  od_table_id :: "ident option"
  od_order_type :: string
  od_customer_notes :: string
  od_status :: string
  od_total_amount :: int
  od_order_items :: "order_item_input list option"

text \<open>\<^verbatim>\<open>s.slice(-n)\<close>: the last \<open>n\<close> characters of \<open>s\<close>, all of \<open>s\<close> when it is shorter.\<close>

definition slice_last :: "nat \<Rightarrow> string \<Rightarrow> string" where
  "slice_last n s = drop (length s - n) s"

text \<open>
  \<^verbatim>\<open>OrdersService.createOrder\<close>, lines 482-538. \<^verbatim>\<open>od_order_items = None\<close> is an absent
  \<^verbatim>\<open>order_items\<close> property. The function returns the \<^verbatim>\<open>data\<close> of the insert, which
  JavaScript allows to be \<^verbatim>\<open>null\<close>; \<^verbatim>\<open>order.id\<close> on \<^verbatim>\<open>null\<close> is a \<^verbatim>\<open>TypeError\<close>.
\<close>

definition createOrder :: "order_data \<Rightarrow> world \<Rightarrow> order_row option result" where
  "createOrder orderData w =
     try_catch ''Error in createOrder:''
       (let orderNumber = ''ORD'' @ slice_last 6 (dec (clock w))
        in case insert_single orders_t
                  (\<lambda>id. \<lparr>o_id = id, o_restaurant_id = od_restaurant_id orderData,
                         o_table_id = od_table_id orderData,
                         o_order_type = od_order_type orderData,
                         o_customer_notes = od_customer_notes orderData,
                         o_status = od_status orderData,
                         o_total_amount = od_total_amount orderData,
                         o_order_number = orderNumber\<rparr>) w of
             ((_, Some orderError), w1) \<Rightarrow>
               (Inl orderError, console_error ''Error creating order:'' orderError w1)
           | ((order, None), w1) \<Rightarrow>
               (case od_order_items orderData of
                  None \<Rightarrow> (Inr order, w1)
                | Some order_items_in \<Rightarrow>
                    if length order_items_in > 0 then
                      (case order of
                         None \<Rightarrow> (Inl TypeError, w1)
                       | Some ord \<Rightarrow>
                           (let orderItems =
                                  map (\<lambda>item id.
                                         \<lparr>oi_id = id, oi_order_id = o_id ord,
                                          oi_menu_item_id = in_menu_item_id item,
                                          oi_quantity = in_quantity item,
                                          oi_item_price = in_item_price item,
                                          oi_special_instructions = in_special_instructions item\<rparr>)
                                      order_items_in
                            in case insert_rows order_items_t orderItems w1 of
                                 (Some itemsError, w2) \<Rightarrow>
                                   (Inl itemsError,
                                    console_error ''Error creating order items:'' itemsError w2)
                               | (None, w2) \<Rightarrow> (Inr order, w2)))
                    else (Inr order, w1)))"

text \<open>\<^verbatim>\<open>OrdersService.updateOrderStatus\<close>, lines 540-558.\<close>

definition updateOrderStatus :: "ident \<Rightarrow> string \<Rightarrow> world \<Rightarrow> order_row option result" where
  "updateOrderStatus orderId status w =
     try_catch ''Error in updateOrderStatus:''
       (case update_where_single orders_t o_id (Eq ''id'' orderId) (\<lambda>r. r\<lparr>o_status := status\<rparr>) w of
          ((_, Some error), w1) \<Rightarrow> (Inl error, console_error ''Error updating order status:'' error w1)
        | ((data, None), w1) \<Rightarrow> (Inr data, w1))"

text \<open>
  \<^verbatim>\<open>OrdersService.deleteOrder\<close>, lines 560-646. \<open>deleteOrder_items\<close> is the block of lines
  599-627, entered when the fetched list of order items is not empty. The pictographs
  that open two of the console messages are left out of the strings.
\<close>

record delete_result =
  success :: bool
  deletedOrder :: order_row

definition deleteOrder_items :: "ident \<Rightarrow> order_item list option \<Rightarrow> world \<Rightarrow> unit result" where
  "deleteOrder_items orderId orderItems w =
     (case orderItems of
        None \<Rightarrow> (Inr (), w)
      | Some items \<Rightarrow>
          if length items > 0 then
            (let orderItemIds = map oi_id items
             in case delete_where order_item_addons_t oia_order_item_id
                       (In ''order_item_id'' orderItemIds) w of
                  (Some addonsDeleteError, w1) \<Rightarrow>
                    (Inl addonsDeleteError,
                     console_error ''Error deleting order item addons:'' addonsDeleteError w1)
                | (None, w1) \<Rightarrow>
                    (case delete_where order_items_t oi_order_id (Eq ''order_id'' orderId) w1 of
                       (Some itemsDeleteError, w2) \<Rightarrow>
                         (Inl itemsDeleteError,
                          console_error ''Error deleting order items:'' itemsDeleteError w2)
                     | (None, w2) \<Rightarrow> (Inr (), w2)))
          else (Inr (), w))"

definition deleteOrder :: "ident \<Rightarrow> world \<Rightarrow> delete_result result" where
  "deleteOrder orderId w =
     try_catch ''Error in deleteOrder:''
       (case select_single orders_t o_id (Eq ''id'' orderId) w of
          ((_, Some fetchError), w1) \<Rightarrow>
            (Inl fetchError, console_error ''Error fetching order for deletion:'' fetchError w1)
        | ((None, None), w1) \<Rightarrow> (Inl (JsError ''Order not found''), w1)
        | ((Some order, None), w1) \<Rightarrow>
            (case select_where order_items_t oi_order_id (Eq ''order_id'' orderId) w1 of
               ((_, Some itemsFetchError), w2) \<Rightarrow>
                 (Inl itemsFetchError,
                  console_error ''Error fetching order items for deletion:'' itemsFetchError w2)
             | ((orderItems, None), w2) \<Rightarrow>
                 (case deleteOrder_items orderId orderItems w2 of
                    (Inl e, w3) \<Rightarrow> (Inl e, w3)
                  | (Inr _, w3) \<Rightarrow>
                      (case delete_where orders_t o_id (Eq ''id'' orderId) w3 of
                         (Some orderDeleteError, w4) \<Rightarrow>
                           (Inl orderDeleteError,
                            console_error ''Error deleting order:'' orderDeleteError w4)
                       | (None, w4) \<Rightarrow>
                           (Inr \<lparr>success = True, deletedOrder = order\<rparr>, w4)))))"

section \<open>AddonService (src/js/addon.js)\<close>

text \<open>\<^verbatim>\<open>AddonService.deleteAddonGroup\<close>, lines 118-139.\<close>

definition deleteAddonGroup :: "ident \<Rightarrow> world \<Rightarrow> unit result" where
  "deleteAddonGroup groupId w =
     try_catch ''Error deleting addon group:''
       (case delete_where addons_t ad_addon_group_id (Eq ''addon_group_id'' groupId) w of
          (Some addonsError, w1) \<Rightarrow> (Inl addonsError, w1)
        | (None, w1) \<Rightarrow>
            (case delete_where addon_groups_t ag_id (Eq ''id'' groupId) w1 of
               (Some error, w2) \<Rightarrow> (Inl error, w2)
             | (None, w2) \<Rightarrow> (Inr (), w2)))"

section \<open>Notions used in the statements\<close>

text \<open>
  The store answers every request still to come: the environment has no failure in stock.
\<close>

definition fault_free :: "world \<Rightarrow> bool" where
  "fault_free w = list_all (\<lambda>f. f = None) (pending w)"

text \<open>
  The outcome in stock for the request issued \<open>k\<close> requests from now: \<open>fault_at 0 w = None\<close>
  says that the store answers the next request.
\<close>

definition fault_at :: "nat \<Rightarrow> world \<Rightarrow> error option" where
  "fault_at k w = (if k < length (pending w) then pending w ! k else None)"

text \<open>
  The order row that \<open>createOrder\<close> hands to the store (lines 492-500), with the identifier
  the store gives it.
\<close>

definition new_order :: "order_data \<Rightarrow> world \<Rightarrow> order_row" where
  "new_order d w =
     \<lparr>o_id = next_id w, o_restaurant_id = od_restaurant_id d, o_table_id = od_table_id d,
      o_order_type = od_order_type d, o_customer_notes = od_customer_notes d,
      o_status = od_status d, o_total_amount = od_total_amount d,
      o_order_number = ''ORD'' @ slice_last 6 (dec (clock w))\<rparr>"

text \<open>
  What a successful add-on-group resolution of a variant yields in the store \<open>d\<close>: the groups
  stored in the array column of the one variant row with that identifier (none for a
  \<^verbatim>\<open>null\<close> column). When the identifier does not single out a row the resolution throws, and
  the loop puts \<^verbatim>\<open>[]\<close>.
\<close>

definition resolved_groups :: "database \<Rightarrow> ident \<Rightarrow> ident list" where
  "resolved_groups d variantId =
     (case single (filter (\<lambda>v. v_id v = variantId) (menu_item_variants d)) of
        Inl e \<Rightarrow> []
      | Inr r \<Rightarrow> (case v_addon_groups r of None \<Rightarrow> [] | Some gs \<Rightarrow> gs))"

text \<open>The list that a loop of the hydration puts into \<^verbatim>\<open>variant.addon_groups\<close>.\<close>

definition groups_or_empty :: "error + group_ref list \<Rightarrow> ident list" where
  "groups_or_empty r = (case r of Inl e \<Rightarrow> [] | Inr refs \<Rightarrow> map addon_group_id refs)"

text \<open>
  A variant as the hydration returns it, given the outcome of its resolution request:
  \<^verbatim>\<open>[]\<close> when the request failed, the resolved groups when the store answered.
\<close>

definition hydrated :: "error option \<Rightarrow> database \<Rightarrow> variant \<Rightarrow> variant" where
  "hydrated outcome d v =
     v\<lparr>v_addon_groups :=
         Some (case outcome of Some e \<Rightarrow> [] | None \<Rightarrow> resolved_groups d (v_id v))\<rparr>"

text \<open>The message under which the loop prints a failed resolution (lines 96 and 257).\<close>

definition load_message :: "variant \<Rightarrow> string" where
  "load_message v = ''Error loading addon groups for variant '' @ dec (v_id v) @ '':''"

text \<open>
  The rows that the variant fetch of an item and the item fetch of a category select
  (lines 240-244 and 75-79).
\<close>

definition variants_of :: "database \<Rightarrow> ident \<Rightarrow> variant list" where
  "variants_of d menuItemId =
     sort_key v_display_order (filter (\<lambda>v. v_menu_item_id v = menuItemId) (menu_item_variants d))"


text \<open>
  The requests that the loop of \<open>getMenuItems\<close> issues for one item: the fetch of its
  variants, and two resolutions for each variant (one inside \<open>getMenuItemVariants\<close>, one in
  the loop of \<open>getMenuItems\<close> itself). \<open>offset_of d its j\<close> counts the requests issued for the
  items before the \<open>j\<close>-th.
\<close>

definition calls_of :: "database \<Rightarrow> menu_item \<Rightarrow> nat" where
  "calls_of d item = Suc (2 * length (variants_of d (mi_id item)))"

definition offset_of :: "database \<Rightarrow> menu_item list \<Rightarrow> nat \<Rightarrow> nat" where
  "offset_of d its j = sum_list (map (calls_of d) (take j its))"


section \<open>Sample worlds\<close>

text \<open>A store with two add-on groups; group 7 owns three add-ons.\<close>

definition addon_world :: world where
  "addon_world =
     \<lparr>db = \<lparr>categories = [], menu_items = [], menu_item_variants = [],
            addon_groups = [\<lparr>ag_id = 7, ag_restaurant_id = 6, ag_name = ''Sauces''\<rparr>,
                            \<lparr>ag_id = 8, ag_restaurant_id = 6, ag_name = ''Sides''\<rparr>],
            addons = [\<lparr>ad_id = 20, ad_addon_group_id = 7, ad_name = ''Mayo'', ad_price = 50\<rparr>,
                      \<lparr>ad_id = 21, ad_addon_group_id = 8, ad_name = ''Fries'', ad_price = 250\<rparr>,
                      \<lparr>ad_id = 22, ad_addon_group_id = 7, ad_name = ''Ketchup'', ad_price = 50\<rparr>,
                      \<lparr>ad_id = 23, ad_addon_group_id = 7, ad_name = ''Harissa'', ad_price = 70\<rparr>],
            orders = [], order_items = [], order_item_addons = []\<rparr>,
      next_id = 100, clock = 1700000123456, current_user = Some 8,
      pending = [], trace = [], console = []\<rparr>"

text \<open>
  A store with two orders; order 2 owns two order items (10 and 11), of which item 10 has
  one add-on.
\<close>

definition order_world :: world where
  "order_world =
     \<lparr>db = \<lparr>categories = [], menu_items = [], menu_item_variants = [], addon_groups = [], addons = [],
            orders = [\<lparr>o_id = 2, o_restaurant_id = 6, o_table_id = Some 4, o_order_type = ''dine_in'',
                       o_customer_notes = [], o_status = ''completed'', o_total_amount = 1250,
                       o_order_number = ''ORD000111''\<rparr>,
                      \<lparr>o_id = 3, o_restaurant_id = 6, o_table_id = None, o_order_type = ''takeaway'',
                       o_customer_notes = ''no onions'', o_status = ''pending'', o_total_amount = 700,
                       o_order_number = ''ORD000222''\<rparr>],
            order_items = [\<lparr>oi_id = 10, oi_order_id = 2, oi_menu_item_id = 5, oi_quantity = 1,
                            oi_item_price = 900, oi_special_instructions = []\<rparr>,
                           \<lparr>oi_id = 12, oi_order_id = 3, oi_menu_item_id = 5, oi_quantity = 1,
                            oi_item_price = 700, oi_special_instructions = []\<rparr>,
                           \<lparr>oi_id = 11, oi_order_id = 2, oi_menu_item_id = 6, oi_quantity = 1,
                            oi_item_price = 300, oi_special_instructions = ''hot''\<rparr>],
            order_item_addons = [\<lparr>oia_id = 30, oia_order_item_id = 10, oia_addon_name = ''Mayo'',
                                  oia_addon_price = 50, oia_quantity = 1\<rparr>,
                                 \<lparr>oia_id = 31, oia_order_item_id = 12, oia_addon_name = ''Fries'',
                                  oia_addon_price = 250, oia_quantity = 2\<rparr>]\<rparr>,
      next_id = 100, clock = 1700000123456, current_user = Some 8,
      pending = [], trace = [], console = []\<rparr>"

definition order_one :: order_row where
  "order_one = \<lparr>o_id = 2, o_restaurant_id = 6, o_table_id = Some 4, o_order_type = ''dine_in'',
                 o_customer_notes = [], o_status = ''completed'', o_total_amount = 1250,
                 o_order_number = ''ORD000111''\<rparr>"

definition order_input :: "order_item_input list option \<Rightarrow> order_data" where
  "order_input its =
     \<lparr>od_restaurant_id = 6, od_table_id = Some 4, od_order_type = ''dine_in'',
      od_customer_notes = [], od_status = ''pending'', od_total_amount = 900,
      od_order_items = its\<rparr>"

definition one_item :: "order_item_input list" where
  "one_item = [\<lparr>in_menu_item_id = 5, in_quantity = 1, in_item_price = 900,
                in_special_instructions = []\<rparr>]"

text \<open>
  A catalog with two categories; category 2 holds items 5 and 6, item 5 has the variants 40
  and 41, item 6 the variant 42.
\<close>

definition catalog_world :: world where
  "catalog_world =
     \<lparr>db = \<lparr>categories = [\<lparr>cat_id = 2, cat_restaurant_id = 6, cat_name = ''Burgers'',
                            cat_display_order = 0\<rparr>,
                          \<lparr>cat_id = 3, cat_restaurant_id = 6, cat_name = ''Drinks'',
                            cat_display_order = 1\<rparr>],
            menu_items = [\<lparr>mi_id = 5, mi_category_id = 2, mi_name = ''Classic'', mi_price = 900,
                           mi_is_available = True, mi_created_at = 1000\<rparr>,
                          \<lparr>mi_id = 6, mi_category_id = 2, mi_name = ''Double'', mi_price = 1200,
                           mi_is_available = True, mi_created_at = 2000\<rparr>,
                          \<lparr>mi_id = 9, mi_category_id = 3, mi_name = ''Water'', mi_price = 200,
                           mi_is_available = True, mi_created_at = 3000\<rparr>],
            menu_item_variants =
              [\<lparr>v_id = 40, v_menu_item_id = 5, v_name = ''Large'', v_additional_price = 200,
                v_image_url = [], v_display_order = 5, v_user_id = Some 8,
                v_addon_groups = Some [7, 8], v_updated_at = None\<rparr>,
               \<lparr>v_id = 42, v_menu_item_id = 6, v_name = ''Single size'', v_additional_price = 0,
                v_image_url = [], v_display_order = 0, v_user_id = Some 8,
                v_addon_groups = Some [8], v_updated_at = None\<rparr>,
               \<lparr>v_id = 41, v_menu_item_id = 5, v_name = ''Small'', v_additional_price = 0,
                v_image_url = [], v_display_order = 3, v_user_id = Some 8,
                v_addon_groups = None, v_updated_at = None\<rparr>],
            addon_groups = [\<lparr>ag_id = 7, ag_restaurant_id = 6, ag_name = ''Sauces''\<rparr>,
                            \<lparr>ag_id = 8, ag_restaurant_id = 6, ag_name = ''Sides''\<rparr>],
            addons = [], orders = [], order_items = [], order_item_addons = []\<rparr>,
      next_id = 100, clock = 1700000123456, current_user = Some 8,
      pending = [], trace = [], console = []\<rparr>"


text \<open>Three variants to save, a store failure, and two catalogs with failures in stock.\<close>

definition three_variants :: "variant_input list" where
  "three_variants =
     [\<lparr>vi_name = ''S'', vi_additional_price = 0, vi_image_url = []\<rparr>,
      \<lparr>vi_name = ''M'', vi_additional_price = 100, vi_image_url = []\<rparr>,
      \<lparr>vi_name = ''L'', vi_additional_price = 200, vi_image_url = ''l.png''\<rparr>]"

definition timeout :: error where
  "timeout = StoreFailure ''timeout''"




section \<open>Auxiliary facts\<close>

lemma list_all_tl [simp]: "list_all P xs \<Longrightarrow> list_all P (tl xs)"
  by (cases xs) simp_all

lemma store_call_ok:
  "list_all (\<lambda>f. f = None) (pending w) \<Longrightarrow>
   store_call c w = (None, w\<lparr>pending := tl (pending w), trace := trace w @ [c]\<rparr>)"
  by (cases "pending w") (simp_all add: store_call_def)

lemma store_call_next:
  "fault_at 0 w = None \<Longrightarrow>
   store_call c w = (None, w\<lparr>pending := tl (pending w), trace := trace w @ [c]\<rparr>)"
  by (cases "pending w") (simp_all add: store_call_def fault_at_def)

lemma store_call_fault:
  "fault_at 0 w = Some e \<Longrightarrow>
   store_call c w = (Some e, w\<lparr>pending := tl (pending w), trace := trace w @ [c]\<rparr>)"
  by (cases "pending w") (simp_all add: store_call_def fault_at_def)

lemmas tabs = categories_t_def menu_items_t_def menu_item_variants_t_def addon_groups_t_def
  addons_t_def orders_t_def order_items_t_def order_item_addons_t_def

lemma filter_none_id: "\<forall>r\<in>set rs. \<not> P r \<Longrightarrow> filter (\<lambda>r. \<not> P r) rs = rs"
  by (induction rs) simp_all

lemma unique_removed: "filter P rs = [r] \<Longrightarrow> length rs = Suc (length (filter (\<lambda>x. \<not> P x) rs))"
  using sum_length_filter_compl[of P rs] by simp

lemma fault_free_at: "fault_free w \<Longrightarrow> fault_at k w = None"
  by (auto simp add: fault_free_def fault_at_def list_all_iff)

lemma deleteOrder_run:
  assumes ok: "fault_free w" and u: "filter (\<lambda>r. o_id r = oid) (orders (db w)) = [ord]"
  shows "deleteOrder oid w =
    (Inr \<lparr>success = True, deletedOrder = ord\<rparr>,
     (if filter (\<lambda>i. oi_order_id i = oid) (order_items (db w)) = [] then
        w\<lparr>db := (db w)\<lparr>orders := filter (\<lambda>r. o_id r \<noteq> oid) (orders (db w))\<rparr>,
          pending := tl (tl (tl (pending w))),
          trace := trace w @ [SelectSingle ''orders'' (Eq ''id'' oid),
                              Select ''order_items'' (Eq ''order_id'' oid),
                              Delete ''orders'' (Eq ''id'' oid)]\<rparr>
      else
        w\<lparr>db := (db w)\<lparr>orders := filter (\<lambda>r. o_id r \<noteq> oid) (orders (db w)),
                       order_items := filter (\<lambda>i. oi_order_id i \<noteq> oid) (order_items (db w)),
                       order_item_addons :=
                         filter (\<lambda>a. oia_order_item_id a \<notin>
                                   set (map oi_id (filter (\<lambda>i. oi_order_id i = oid) (order_items (db w)))))
                           (order_item_addons (db w))\<rparr>,
          pending := tl (tl (tl (tl (tl (pending w))))),
          trace := trace w @ [SelectSingle ''orders'' (Eq ''id'' oid),
                              Select ''order_items'' (Eq ''order_id'' oid),
                              Delete ''order_item_addons''
                                (In ''order_item_id''
                                   (map oi_id (filter (\<lambda>i. oi_order_id i = oid) (order_items (db w))))),
                              Delete ''order_items'' (Eq ''order_id'' oid),
                              Delete ''orders'' (Eq ''id'' oid)]\<rparr>))"
  using ok u
  by (simp add: fault_free_def deleteOrder_def deleteOrder_items_def try_catch_def select_single_def
      select_where_def delete_where_def store_call_ok tabs single_def)

lemma deleteOrder_absent:
  assumes "\<forall>r \<in> set (orders (db w)). o_id r \<noteq> oid"
  shows "deleteOrder oid w =
    (Inl (case fault_at 0 w of None \<Rightarrow> NotFound | Some e \<Rightarrow> e),
     w\<lparr>pending := tl (pending w), trace := trace w @ [SelectSingle ''orders'' (Eq ''id'' oid)],
       console := console w @
         [(''Error fetching order for deletion:'', case fault_at 0 w of None \<Rightarrow> NotFound | Some e \<Rightarrow> e),
          (''Error in deleteOrder:'', case fault_at 0 w of None \<Rightarrow> NotFound | Some e \<Rightarrow> e)]\<rparr>)"
proof (cases "fault_at 0 w")
  case None
  then show ?thesis using assms
    by (simp add: deleteOrder_def try_catch_def select_single_def store_call_next tabs
        single_def console_error_def)
next
  case (Some e)
  then show ?thesis
    by (simp add: deleteOrder_def try_catch_def select_single_def store_call_fault tabs console_error_def)
qed

lemma filter_map_upd:
  "(\<And>r. P (f r) = P r) \<Longrightarrow> filter P (map (\<lambda>r. if P r then f r else r) xs) = map f (filter P xs)"
  by (induction xs) simp_all

lemma fault_at_tl: "pending w1 = tl (pending w) \<Longrightarrow> fault_at i w1 = fault_at (Suc i) w"
  by (cases "pending w") (simp_all add: fault_at_def)


lemma fresh_rows_length [simp]: "length (fresh_rows n bs) = length bs"
  by (simp add: fresh_rows_def)

lemma fresh_rows_nth: "i < length bs \<Longrightarrow> fresh_rows n bs ! i = (bs ! i) (n + i)"
  by (simp add: fresh_rows_def nth_enumerate_eq)

lemma hydrated_fields [simp]:
  "v_id (hydrated f d v) = v_id v"
  "v_menu_item_id (hydrated f d v) = v_menu_item_id v"
  "v_name (hydrated f d v) = v_name v"
  "v_additional_price (hydrated f d v) = v_additional_price v"
  "v_image_url (hydrated f d v) = v_image_url v"
  "v_display_order (hydrated f d v) = v_display_order v"
  by (simp_all add: hydrated_def)

lemma hydrated_hydrated [simp]: "hydrated f2 d (hydrated f1 d v) = hydrated f2 d v"
  by (simp add: hydrated_def cong: option.case_cong)

lemma load_message_hydrated [simp]: "load_message (hydrated f d v) = load_message v"
  by (simp add: load_message_def)

lemma offset_of_0 [simp]: "offset_of d its 0 = 0"
  by (simp add: offset_of_def)

lemma offset_of_Suc [simp]: "offset_of d (item # rest) (Suc j) = calls_of d item + offset_of d rest j"
  by (simp add: offset_of_def)


lemmas run_defs =
  store_call_def select_where_def select_where_order_def select_single_def delete_where_def
  update_where_def update_where_single_def insert_rows_def insert_single_def fresh_rows_def
  single_def console_error_def try_catch_def tabs Let_def

section \<open>Deleting a category\<close>

text \<open>
  C9. \<open>deleteCategory\<close> issues one delete on the table of categories and touches nothing
  else. Whatever the store answers, the table of menu items is the one before the call.
  When the store answers, the call succeeds, the store differs from the one before only in
  that the rows of the category are gone, and every menu item that referenced the category
  is still there, unchanged, now referencing a category that no longer exists.
\<close>

theorem deleteCategory_frame:
  "menu_items (db (snd (deleteCategory cid w))) = menu_items (db w) \<and>
   (fault_free w \<longrightarrow>
      fst (deleteCategory cid w) = Inr () \<and>
      db (snd (deleteCategory cid w)) =
        (db w)\<lparr>categories := filter (\<lambda>c. cat_id c \<noteq> cid) (categories (db w))\<rparr> \<and>
      (\<forall>c \<in> set (categories (db (snd (deleteCategory cid w)))). cat_id c \<noteq> cid) \<and>
      (\<forall>m \<in> set (menu_items (db w)). mi_category_id m = cid \<longrightarrow>
         m \<in> set (menu_items (db (snd (deleteCategory cid w))))))"
proof (rule conjI)
  show "menu_items (db (snd (deleteCategory cid w))) = menu_items (db w)"
    by (simp add: deleteCategory_def try_catch_def delete_where_def store_call_def console_error_def
        tabs split: list.splits option.splits prod.splits)
  show "fault_free w \<longrightarrow>
      fst (deleteCategory cid w) = Inr () \<and>
      db (snd (deleteCategory cid w)) =
        (db w)\<lparr>categories := filter (\<lambda>c. cat_id c \<noteq> cid) (categories (db w))\<rparr> \<and>
      (\<forall>c \<in> set (categories (db (snd (deleteCategory cid w)))). cat_id c \<noteq> cid) \<and>
      (\<forall>m \<in> set (menu_items (db w)). mi_category_id m = cid \<longrightarrow>
         m \<in> set (menu_items (db (snd (deleteCategory cid w)))))"
    by (simp add: fault_free_def deleteCategory_def try_catch_def delete_where_def store_call_ok tabs)
qed

theorem deleteCategory_frame_witness:
  "fault_free catalog_world \<and>
   fst (deleteCategory 2 catalog_world) = Inr () \<and>
   map cat_id (categories (db (snd (deleteCategory 2 catalog_world)))) = [3] \<and>
   map mi_category_id (menu_items (db (snd (deleteCategory 2 catalog_world)))) = [2, 2, 3] \<and>
   menu_items (db (snd (deleteCategory 2 catalog_world))) = menu_items (db catalog_world)"
proof -
  have h: "fault_free catalog_world"
    by (simp add: catalog_world_def fault_free_def)
  note t = deleteCategory_frame [of 2 catalog_world, THEN conjunct2, THEN mp, OF h]
  have r: "fst (deleteCategory 2 catalog_world) = Inr ()"
    by (rule t [THEN conjunct1])
  have d: "db (snd (deleteCategory 2 catalog_world)) =
        (db catalog_world)\<lparr>categories := filter (\<lambda>c. cat_id c \<noteq> 2) (categories (db catalog_world))\<rparr>"
    by (rule t [THEN conjunct2, THEN conjunct1])
  show ?thesis
    unfolding r d by (simp add: catalog_world_def fault_free_def)
qed

section \<open>Deleting an add-on group\<close>

text \<open>
  C3. \<open>deleteAddonGroup\<close> first deletes the add-ons of the group and then the group. When
  the store answers both requests, the call succeeds, the two deletes were issued in that
  order, every add-on row of the group is gone (as many rows as the group owned, three for
  a group that owned three), the group row is gone, every other row is untouched, and a
  single-row query of the store for the group answers \<open>NotFound\<close>. The order shows in the states a
  failure leaves behind: when the delete of the group fails, the add-ons are already gone
  and the group row is still there; when the delete of the add-ons fails, nothing is
  deleted and the delete of the group is never issued.
\<close>

theorem deleteAddonGroup_addons_first:
  "(fault_free w \<longrightarrow>
      fst (deleteAddonGroup g w) = Inr () \<and>
      trace (snd (deleteAddonGroup g w)) =
        trace w @ [Delete ''addons'' (Eq ''addon_group_id'' g), Delete ''addon_groups'' (Eq ''id'' g)] \<and>
      db (snd (deleteAddonGroup g w)) =
        (db w)\<lparr>addon_groups := filter (\<lambda>r. ag_id r \<noteq> g) (addon_groups (db w)),
                addons := filter (\<lambda>a. ad_addon_group_id a \<noteq> g) (addons (db w))\<rparr> \<and>
      length (addons (db (snd (deleteAddonGroup g w)))) +
        length (filter (\<lambda>a. ad_addon_group_id a = g) (addons (db w))) = length (addons (db w)) \<and>
      (\<forall>a \<in> set (addons (db (snd (deleteAddonGroup g w)))). ad_addon_group_id a \<noteq> g) \<and>
      (\<forall>r \<in> set (addon_groups (db (snd (deleteAddonGroup g w)))). ag_id r \<noteq> g) \<and>
      fst (select_single addon_groups_t ag_id (Eq ''id'' g) (snd (deleteAddonGroup g w))) =
        (None, Some NotFound)) \<and>
   (\<forall>e rest. pending w = None # Some e # rest \<longrightarrow>
      fst (deleteAddonGroup g w) = Inl e \<and>
      db (snd (deleteAddonGroup g w)) =
        (db w)\<lparr>addons := filter (\<lambda>a. ad_addon_group_id a \<noteq> g) (addons (db w))\<rparr>) \<and>
   (\<forall>e rest. pending w = Some e # rest \<longrightarrow>
      fst (deleteAddonGroup g w) = Inl e \<and>
      db (snd (deleteAddonGroup g w)) = db w \<and>
      trace (snd (deleteAddonGroup g w)) = trace w @ [Delete ''addons'' (Eq ''addon_group_id'' g)])"
proof (intro conjI impI allI)
  assume ok: "fault_free w"
  then have run: "deleteAddonGroup g w =
    (Inr (), w\<lparr>db := (db w)\<lparr>addon_groups := filter (\<lambda>r. ag_id r \<noteq> g) (addon_groups (db w)),
                addons := filter (\<lambda>a. ad_addon_group_id a \<noteq> g) (addons (db w))\<rparr>,
               pending := tl (tl (pending w)),
               trace := trace w @ [Delete ''addons'' (Eq ''addon_group_id'' g),
                                   Delete ''addon_groups'' (Eq ''id'' g)]\<rparr>)"
    by (simp add: fault_free_def deleteAddonGroup_def try_catch_def delete_where_def store_call_ok tabs)
  show "fst (deleteAddonGroup g w) = Inr ()" by (simp add: run)
  show "trace (snd (deleteAddonGroup g w)) =
        trace w @ [Delete ''addons'' (Eq ''addon_group_id'' g), Delete ''addon_groups'' (Eq ''id'' g)]"
    by (simp add: run)
  show "db (snd (deleteAddonGroup g w)) =
        (db w)\<lparr>addon_groups := filter (\<lambda>r. ag_id r \<noteq> g) (addon_groups (db w)),
                addons := filter (\<lambda>a. ad_addon_group_id a \<noteq> g) (addons (db w))\<rparr>"
    by (simp add: run)
  show "length (addons (db (snd (deleteAddonGroup g w)))) +
        length (filter (\<lambda>a. ad_addon_group_id a = g) (addons (db w))) = length (addons (db w))"
    using sum_length_filter_compl [of "\<lambda>a. ad_addon_group_id a = g" "addons (db w)"]
    by (simp add: run)
  show "\<forall>a \<in> set (addons (db (snd (deleteAddonGroup g w)))). ad_addon_group_id a \<noteq> g"
    by (simp add: run)
  show "\<forall>r \<in> set (addon_groups (db (snd (deleteAddonGroup g w)))). ag_id r \<noteq> g"
    by (simp add: run)
  have "list_all (\<lambda>f. f = None) (pending (snd (deleteAddonGroup g w)))"
    using ok by (simp add: run fault_free_def)
  then show "fst (select_single addon_groups_t ag_id (Eq ''id'' g) (snd (deleteAddonGroup g w))) =
        (None, Some NotFound)"
    by (simp add: select_single_def store_call_ok tabs single_def run)
next
  fix e rest assume p: "pending w = None # Some e # rest"
  then show "fst (deleteAddonGroup g w) = Inl e"
    by (simp add: deleteAddonGroup_def try_catch_def delete_where_def store_call_def tabs)
  from p show "db (snd (deleteAddonGroup g w)) =
        (db w)\<lparr>addons := filter (\<lambda>a. ad_addon_group_id a \<noteq> g) (addons (db w))\<rparr>"
    by (simp add: deleteAddonGroup_def try_catch_def delete_where_def store_call_def tabs
        console_error_def)
next
  fix e rest assume p: "pending w = Some e # rest"
  then show "fst (deleteAddonGroup g w) = Inl e"
    by (simp add: deleteAddonGroup_def try_catch_def delete_where_def store_call_def tabs)
  from p show "db (snd (deleteAddonGroup g w)) = db w"
    by (simp add: deleteAddonGroup_def try_catch_def delete_where_def store_call_def tabs
        console_error_def)
  from p show "trace (snd (deleteAddonGroup g w)) =
      trace w @ [Delete ''addons'' (Eq ''addon_group_id'' g)]"
    by (simp add: deleteAddonGroup_def try_catch_def delete_where_def store_call_def tabs
        console_error_def)
qed

theorem deleteAddonGroup_addons_first_witness:
  "fault_free addon_world \<and>
   length (filter (\<lambda>a. ad_addon_group_id a = 7) (addons (db addon_world))) = 3 \<and>
   fst (deleteAddonGroup 7 addon_world) = Inr () \<and>
   map ad_id (addons (db (snd (deleteAddonGroup 7 addon_world)))) = [21] \<and>
   map ag_id (addon_groups (db (snd (deleteAddonGroup 7 addon_world)))) = [8] \<and>
   fst (select_single addon_groups_t ag_id (Eq ''id'' 7) (snd (deleteAddonGroup 7 addon_world))) =
     (None, Some NotFound) \<and>
   pending (addon_world\<lparr>pending := [None, Some (StoreFailure ''down'')]\<rparr>) =
     None # Some (StoreFailure ''down'') # [] \<and>
   fst (deleteAddonGroup 7 (addon_world\<lparr>pending := [None, Some (StoreFailure ''down'')]\<rparr>)) =
     Inl (StoreFailure ''down'') \<and>
   map ag_id (addon_groups (db (snd (deleteAddonGroup 7
       (addon_world\<lparr>pending := [None, Some (StoreFailure ''down'')]\<rparr>))))) = [7, 8] \<and>
   map ad_id (addons (db (snd (deleteAddonGroup 7
       (addon_world\<lparr>pending := [None, Some (StoreFailure ''down'')]\<rparr>))))) = [21] \<and>
   pending (addon_world\<lparr>pending := [Some (StoreFailure ''down'')]\<rparr>) =
     Some (StoreFailure ''down'') # [] \<and>
   db (snd (deleteAddonGroup 7 (addon_world\<lparr>pending := [Some (StoreFailure ''down'')]\<rparr>))) =
     db addon_world"
proof -
  let ?w1 = "addon_world\<lparr>pending := [None, Some (StoreFailure ''down'')]\<rparr>"
  let ?w2 = "addon_world\<lparr>pending := [Some (StoreFailure ''down'')]\<rparr>"
  have h: "fault_free addon_world"
    by (simp add: addon_world_def fault_free_def)
  have p1: "pending ?w1 = None # Some (StoreFailure ''down'') # []" by simp
  have p2: "pending ?w2 = Some (StoreFailure ''down'') # []" by simp
  note a = deleteAddonGroup_addons_first [of addon_world 7, THEN conjunct1, THEN mp, OF h]
  note b = deleteAddonGroup_addons_first [of ?w1 7, THEN conjunct2, THEN conjunct1, rule_format, OF p1]
  note c = deleteAddonGroup_addons_first [of ?w2 7, THEN conjunct2, THEN conjunct2, rule_format, OF p2]
  have ra: "fst (deleteAddonGroup 7 addon_world) = Inr ()"
    by (rule a [THEN conjunct1])
  have da: "db (snd (deleteAddonGroup 7 addon_world)) =
      (db addon_world)\<lparr>addon_groups := filter (\<lambda>r. ag_id r \<noteq> 7) (addon_groups (db addon_world)),
                       addons := filter (\<lambda>a. ad_addon_group_id a \<noteq> 7) (addons (db addon_world))\<rparr>"
    by (rule a [THEN conjunct2, THEN conjunct2, THEN conjunct1])
  have rb: "fst (deleteAddonGroup 7 ?w1) = Inl (StoreFailure ''down'')"
    by (rule b [THEN conjunct1])
  have db: "db (snd (deleteAddonGroup 7 ?w1)) =
      (db ?w1)\<lparr>addons := filter (\<lambda>a. ad_addon_group_id a \<noteq> 7) (addons (db ?w1))\<rparr>"
    by (rule b [THEN conjunct2])
  have dc: "db (snd (deleteAddonGroup 7 ?w2)) = db ?w2"
    by (rule c [THEN conjunct2, THEN conjunct1])
  have qa: "fst (select_single addon_groups_t ag_id (Eq ''id'' 7) (snd (deleteAddonGroup 7 addon_world))) =
     (None, Some NotFound)"
    by (rule a [THEN conjunct2, THEN conjunct2, THEN conjunct2, THEN conjunct2, THEN conjunct2,
          THEN conjunct2])
  show ?thesis
    unfolding ra da rb db dc qa by (simp add: addon_world_def fault_free_def)
qed

section \<open>Deleting an order\<close>

lemma deleteOrder_success:
  assumes "fault_free w" and "filter (\<lambda>r. o_id r = oid) (orders (db w)) = [ord]"
  shows "fst (deleteOrder oid w) = Inr \<lparr>success = True, deletedOrder = ord\<rparr> \<and>
    trace (snd (deleteOrder oid w)) =
      trace w @
      [SelectSingle ''orders'' (Eq ''id'' oid), Select ''order_items'' (Eq ''order_id'' oid)] @
      (if filter (\<lambda>i. oi_order_id i = oid) (order_items (db w)) = [] then []
       else [Delete ''order_item_addons''
               (In ''order_item_id''
                  (map oi_id (filter (\<lambda>i. oi_order_id i = oid) (order_items (db w))))),
             Delete ''order_items'' (Eq ''order_id'' oid)]) @
      [Delete ''orders'' (Eq ''id'' oid)] \<and>
    db (snd (deleteOrder oid w)) =
      (db w)\<lparr>orders := filter (\<lambda>r. o_id r \<noteq> oid) (orders (db w)),
              order_items := filter (\<lambda>i. oi_order_id i \<noteq> oid) (order_items (db w)),
              order_item_addons :=
                filter (\<lambda>a. oia_order_item_id a \<notin>
                          set (map oi_id (filter (\<lambda>i. oi_order_id i = oid) (order_items (db w)))))
                  (order_item_addons (db w))\<rparr> \<and>
    length (order_item_addons (db (snd (deleteOrder oid w)))) +
      length (filter (\<lambda>a. oia_order_item_id a \<in>
                        set (map oi_id (filter (\<lambda>i. oi_order_id i = oid) (order_items (db w)))))
                (order_item_addons (db w))) =
      length (order_item_addons (db w)) \<and>
    length (order_items (db (snd (deleteOrder oid w)))) +
      length (filter (\<lambda>i. oi_order_id i = oid) (order_items (db w))) =
      length (order_items (db w)) \<and>
    Suc (length (orders (db (snd (deleteOrder oid w))))) = length (orders (db w))"
proof -
  let ?its = "filter (\<lambda>i. oi_order_id i = oid) (order_items (db w))"
  note run = deleteOrder_run [OF assms]
  have none: "?its = [] \<Longrightarrow> filter (\<lambda>i. oi_order_id i \<noteq> oid) (order_items (db w)) = order_items (db w)"
    by (rule filter_none_id) (simp add: filter_empty_conv)
  have d: "db (snd (deleteOrder oid w)) =
      (db w)\<lparr>orders := filter (\<lambda>r. o_id r \<noteq> oid) (orders (db w)),
              order_items := filter (\<lambda>i. oi_order_id i \<noteq> oid) (order_items (db w)),
              order_item_addons :=
                filter (\<lambda>a. oia_order_item_id a \<notin> set (map oi_id ?its)) (order_item_addons (db w))\<rparr>"
    by (cases "?its = []") (simp_all add: run none)
  have c1: "length (filter (\<lambda>a. oia_order_item_id a \<notin> set (map oi_id ?its)) (order_item_addons (db w))) +
      length (filter (\<lambda>a. oia_order_item_id a \<in> set (map oi_id ?its)) (order_item_addons (db w))) =
      length (order_item_addons (db w))"
    using sum_length_filter_compl[of "\<lambda>a. oia_order_item_id a \<in> set (map oi_id ?its)" "order_item_addons (db w)"]
    by simp
  have c2: "length (filter (\<lambda>i. oi_order_id i \<noteq> oid) (order_items (db w))) + length ?its =
      length (order_items (db w))"
    using sum_length_filter_compl[of "\<lambda>i. oi_order_id i = oid" "order_items (db w)"] by simp
  have c3: "Suc (length (filter (\<lambda>r. o_id r \<noteq> oid) (orders (db w)))) = length (orders (db w))"
    using unique_removed[OF assms(2)] by simp
  show ?thesis
  proof (intro conjI)
    show "fst (deleteOrder oid w) = Inr \<lparr>success = True, deletedOrder = ord\<rparr>"
      by (simp add: run)
  qed (use c1 c2 c3 in \<open>simp_all add: d\<close>, simp add: run)
qed

lemma deleteOrder_abort:
  assumes u: "filter (\<lambda>r. o_id r = oid) (orders (db w)) = [ord]"
    and ne: "filter (\<lambda>i. oi_order_id i = oid) (order_items (db w)) \<noteq> []"
  shows "(pending w = None # None # Some e # rest \<longrightarrow>
      fst (deleteOrder oid w) = Inl e \<and> db (snd (deleteOrder oid w)) = db w) \<and>
    (pending w = None # None # None # Some e # rest \<longrightarrow>
      fst (deleteOrder oid w) = Inl e \<and>
      db (snd (deleteOrder oid w)) =
        (db w)\<lparr>order_item_addons :=
                filter (\<lambda>a. oia_order_item_id a \<notin>
                          set (map oi_id (filter (\<lambda>i. oi_order_id i = oid) (order_items (db w)))))
                  (order_item_addons (db w))\<rparr>) \<and>
    (pending w = None # None # None # None # Some e # rest \<longrightarrow>
      fst (deleteOrder oid w) = Inl e \<and>
      db (snd (deleteOrder oid w)) =
        (db w)\<lparr>order_items := filter (\<lambda>i. oi_order_id i \<noteq> oid) (order_items (db w)),
                order_item_addons :=
                filter (\<lambda>a. oia_order_item_id a \<notin>
                          set (map oi_id (filter (\<lambda>i. oi_order_id i = oid) (order_items (db w)))))
                  (order_item_addons (db w))\<rparr>)"
  using u ne
  by (simp add: deleteOrder_def deleteOrder_items_def try_catch_def select_single_def
      select_where_def delete_where_def store_call_def tabs single_def console_error_def)

text \<open>
  C1. Let one order row carry the order id. On a store that answers every request,
  \<open>deleteOrder\<close> returns the fetched order and issues its requests in this order: the fetch
  of the order, the fetch of its order items, the delete of the order-item add-ons whose
  order item is among the fetched ones, the delete of the order items of the order, the
  delete of the order. (The two deletes in the middle are issued only when the order has
  order items; without any there is no row for them to delete.) Afterwards the store is the
  one before the call without the add-on rows of those order items, without the order
  items of the order and without the order row; the numbers of rows removed are the number
  of such add-on rows, the number of order items of the order, and one. For an order with
  two order items, one of which has one add-on, that is one add-on row, two order-item rows
  and one order row.

  That each phase is over before the next begins shows in the states a failure leaves
  behind, for an order that has order items: when the delete of the add-ons fails, nothing
  is deleted; when the delete of the order items fails, exactly the add-ons are gone; when
  the delete of the order fails, exactly the add-ons and the order items are gone.
\<close>

theorem deleteOrder_phases:
  assumes "filter (\<lambda>r. o_id r = oid) (orders (db w)) = [ord]"
  shows "(fault_free w \<longrightarrow>
    fst (deleteOrder oid w) = Inr \<lparr>success = True, deletedOrder = ord\<rparr> \<and>
    trace (snd (deleteOrder oid w)) =
      trace w @
      [SelectSingle ''orders'' (Eq ''id'' oid), Select ''order_items'' (Eq ''order_id'' oid)] @
      (if filter (\<lambda>i. oi_order_id i = oid) (order_items (db w)) = [] then []
       else [Delete ''order_item_addons''
               (In ''order_item_id''
                  (map oi_id (filter (\<lambda>i. oi_order_id i = oid) (order_items (db w))))),
             Delete ''order_items'' (Eq ''order_id'' oid)]) @
      [Delete ''orders'' (Eq ''id'' oid)] \<and>
    db (snd (deleteOrder oid w)) =
      (db w)\<lparr>orders := filter (\<lambda>r. o_id r \<noteq> oid) (orders (db w)),
              order_items := filter (\<lambda>i. oi_order_id i \<noteq> oid) (order_items (db w)),
              order_item_addons :=
                filter (\<lambda>a. oia_order_item_id a \<notin>
                          set (map oi_id (filter (\<lambda>i. oi_order_id i = oid) (order_items (db w)))))
                  (order_item_addons (db w))\<rparr> \<and>
    length (order_item_addons (db (snd (deleteOrder oid w)))) +
      length (filter (\<lambda>a. oia_order_item_id a \<in>
                        set (map oi_id (filter (\<lambda>i. oi_order_id i = oid) (order_items (db w)))))
                (order_item_addons (db w))) =
      length (order_item_addons (db w)) \<and>
    length (order_items (db (snd (deleteOrder oid w)))) +
      length (filter (\<lambda>i. oi_order_id i = oid) (order_items (db w))) =
      length (order_items (db w)) \<and>
    Suc (length (orders (db (snd (deleteOrder oid w))))) = length (orders (db w))) \<and>
   (filter (\<lambda>i. oi_order_id i = oid) (order_items (db w)) \<noteq> [] \<longrightarrow>
    (\<forall>e rest.
    (pending w = None # None # Some e # rest \<longrightarrow>
      fst (deleteOrder oid w) = Inl e \<and> db (snd (deleteOrder oid w)) = db w) \<and>
    (pending w = None # None # None # Some e # rest \<longrightarrow>
      fst (deleteOrder oid w) = Inl e \<and>
      db (snd (deleteOrder oid w)) =
        (db w)\<lparr>order_item_addons :=
                filter (\<lambda>a. oia_order_item_id a \<notin>
                          set (map oi_id (filter (\<lambda>i. oi_order_id i = oid) (order_items (db w)))))
                  (order_item_addons (db w))\<rparr>) \<and>
    (pending w = None # None # None # None # Some e # rest \<longrightarrow>
      fst (deleteOrder oid w) = Inl e \<and>
      db (snd (deleteOrder oid w)) =
        (db w)\<lparr>order_items := filter (\<lambda>i. oi_order_id i \<noteq> oid) (order_items (db w)),
                order_item_addons :=
                filter (\<lambda>a. oia_order_item_id a \<notin>
                          set (map oi_id (filter (\<lambda>i. oi_order_id i = oid) (order_items (db w)))))
                  (order_item_addons (db w))\<rparr>)))"
  using deleteOrder_success [OF _ assms] deleteOrder_abort [OF assms] by blast

theorem deleteOrder_phases_witness:
  "fault_free order_world \<and>
   filter (\<lambda>r. o_id r = 2) (orders (db order_world)) = [order_one] \<and>
   length (filter (\<lambda>i. oi_order_id i = 2) (order_items (db order_world))) = 2 \<and>
   fst (deleteOrder 2 order_world) = Inr \<lparr>success = True, deletedOrder = order_one\<rparr> \<and>
   trace (snd (deleteOrder 2 order_world)) =
     [SelectSingle ''orders'' (Eq ''id'' 2), Select ''order_items'' (Eq ''order_id'' 2),
      Delete ''order_item_addons'' (In ''order_item_id'' [10, 11]),
      Delete ''order_items'' (Eq ''order_id'' 2), Delete ''orders'' (Eq ''id'' 2)] \<and>
   length (order_item_addons (db (snd (deleteOrder 2 order_world)))) + 1 =
     length (order_item_addons (db order_world)) \<and>
   length (order_items (db (snd (deleteOrder 2 order_world)))) + 2 =
     length (order_items (db order_world)) \<and>
   Suc (length (orders (db (snd (deleteOrder 2 order_world))))) = length (orders (db order_world)) \<and>
   pending (order_world\<lparr>pending := [None, None, None, Some timeout]\<rparr>) =
     None # None # None # Some timeout # [] \<and>
   fst (deleteOrder 2 (order_world\<lparr>pending := [None, None, None, Some timeout]\<rparr>)) = Inl timeout \<and>
   map oia_id (order_item_addons
     (db (snd (deleteOrder 2 (order_world\<lparr>pending := [None, None, None, Some timeout]\<rparr>))))) = [31] \<and>
   map oi_id (order_items
     (db (snd (deleteOrder 2 (order_world\<lparr>pending := [None, None, None, Some timeout]\<rparr>))))) =
     [10, 12, 11] \<and>
   map o_id (orders
     (db (snd (deleteOrder 2 (order_world\<lparr>pending := [None, None, None, Some timeout]\<rparr>))))) = [2, 3]"
proof -
  let ?w = "order_world\<lparr>pending := [None, None, None, Some timeout]\<rparr>"
  have h1: "fault_free order_world"
    by (simp add: order_world_def fault_free_def)
  have h2: "filter (\<lambda>r. o_id r = 2) (orders (db order_world)) = [order_one]"
    by (simp add: order_world_def order_one_def)
  have ids: "map oi_id (filter (\<lambda>i. oi_order_id i = 2) (order_items (db order_world))) = [10, 11]"
    by (simp add: order_world_def)
  have n: "length (filter (\<lambda>i. oi_order_id i = 2) (order_items (db order_world))) = 2"
    by (simp add: order_world_def)
  have ne: "filter (\<lambda>i. oi_order_id i = 2) (order_items (db order_world)) \<noteq> []"
    using n by auto
  have k: "length (filter (\<lambda>a. oia_order_item_id a \<in> set [10, 11])
             (order_item_addons (db order_world))) = 1"
    by (simp add: order_world_def)
  have t: "trace order_world = []"
    by (simp add: order_world_def)
  have success: "fst (deleteOrder 2 order_world) = Inr \<lparr>success = True, deletedOrder = order_one\<rparr> \<and>
     trace (snd (deleteOrder 2 order_world)) =
       [SelectSingle ''orders'' (Eq ''id'' 2), Select ''order_items'' (Eq ''order_id'' 2),
        Delete ''order_item_addons'' (In ''order_item_id'' [10, 11]),
        Delete ''order_items'' (Eq ''order_id'' 2), Delete ''orders'' (Eq ''id'' 2)] \<and>
     length (order_item_addons (db (snd (deleteOrder 2 order_world)))) + 1 =
       length (order_item_addons (db order_world)) \<and>
     length (order_items (db (snd (deleteOrder 2 order_world)))) + 2 =
       length (order_items (db order_world)) \<and>
     Suc (length (orders (db (snd (deleteOrder 2 order_world))))) = length (orders (db order_world))"
    using n k deleteOrder_phases [OF h2, THEN conjunct1, THEN mp, OF h1, unfolded ids]
    by (elim conjE) (simp add: ne t)
  have p: "pending ?w = None # None # None # Some timeout # []" by simp
  have h2': "filter (\<lambda>r. o_id r = 2) (orders (db ?w)) = [order_one]"
    using h2 by simp
  have ne': "filter (\<lambda>i. oi_order_id i = 2) (order_items (db ?w)) \<noteq> []"
    using ne by simp
  note f = deleteOrder_phases [OF h2', THEN conjunct2, THEN mp, OF ne', rule_format,
      THEN conjunct2, THEN conjunct1, THEN mp, OF p]
  have fr: "fst (deleteOrder 2 ?w) = Inl timeout"
    by (rule f [THEN conjunct1])
  have fd: "db (snd (deleteOrder 2 ?w)) =
      (db ?w)\<lparr>order_item_addons :=
         filter (\<lambda>a. oia_order_item_id a \<notin>
                   set (map oi_id (filter (\<lambda>i. oi_order_id i = 2) (order_items (db ?w)))))
           (order_item_addons (db ?w))\<rparr>"
    by (rule f [THEN conjunct2])
  have partial: "map oia_id (order_item_addons (db (snd (deleteOrder 2 ?w)))) = [31] \<and>
     map oi_id (order_items (db (snd (deleteOrder 2 ?w)))) = [10, 12, 11] \<and>
     map o_id (orders (db (snd (deleteOrder 2 ?w)))) = [2, 3]"
    unfolding fd by (simp add: order_world_def)
  from h1 h2 n success p fr partial show ?thesis
    by blast
qed

text \<open>
  C6. When no order row carries the id, \<open>deleteOrder\<close> never succeeds and deletes nothing:
  it issues the fetch of the order and stops. When the store answers that fetch, the error
  is \<open>NotFound\<close>. In particular a second \<open>deleteOrder\<close> of an order that was just deleted
  fails with \<open>NotFound\<close> and leaves the store as the first one left it.
\<close>

theorem deleteOrder_missing:
  "(filter (\<lambda>r. o_id r = oid) (orders (db w)) = [] \<longrightarrow>
      (\<exists>e. fst (deleteOrder oid w) = Inl e) \<and>
      (fault_at 0 w = None \<longrightarrow> fst (deleteOrder oid w) = Inl NotFound) \<and>
      db (snd (deleteOrder oid w)) = db w \<and>
      trace (snd (deleteOrder oid w)) = trace w @ [SelectSingle ''orders'' (Eq ''id'' oid)]) \<and>
   (fault_free w \<and> filter (\<lambda>r. o_id r = oid) (orders (db w)) = [ord] \<longrightarrow>
      fst (deleteOrder oid (snd (deleteOrder oid w))) = Inl NotFound \<and>
      db (snd (deleteOrder oid (snd (deleteOrder oid w)))) = db (snd (deleteOrder oid w)))"
proof (intro conjI impI)
  assume "filter (\<lambda>r. o_id r = oid) (orders (db w)) = []"
  then have a: "\<forall>r \<in> set (orders (db w)). o_id r \<noteq> oid"
    by (simp add: filter_empty_conv)
  show "\<exists>e. fst (deleteOrder oid w) = Inl e"
    by (simp add: deleteOrder_absent [OF a])
  show "db (snd (deleteOrder oid w)) = db w"
    by (simp add: deleteOrder_absent [OF a])
  show "trace (snd (deleteOrder oid w)) = trace w @ [SelectSingle ''orders'' (Eq ''id'' oid)]"
    by (simp add: deleteOrder_absent [OF a])
  assume "fault_at 0 w = None"
  then show "fst (deleteOrder oid w) = Inl NotFound"
    by (simp add: deleteOrder_absent [OF a])
next
  assume b: "fault_free w \<and> filter (\<lambda>r. o_id r = oid) (orders (db w)) = [ord]"
  then have ok: "fault_free w" and u: "filter (\<lambda>r. o_id r = oid) (orders (db w)) = [ord]"
    by simp_all
  let ?w = "snd (deleteOrder oid w)"
  have gone: "\<forall>r \<in> set (orders (db ?w)). o_id r \<noteq> oid"
    by (simp add: deleteOrder_run [OF ok u])
  have "fault_free ?w"
    using ok by (simp add: deleteOrder_run [OF ok u] fault_free_def)
  then have next_ok: "fault_at 0 ?w = None"
    by (rule fault_free_at)
  show "fst (deleteOrder oid ?w) = Inl NotFound"
    by (simp add: deleteOrder_absent [OF gone] next_ok)
  show "db (snd (deleteOrder oid ?w)) = db ?w"
    by (simp add: deleteOrder_absent [OF gone])
qed

theorem deleteOrder_missing_witness:
  "filter (\<lambda>r. o_id r = 9) (orders (db order_world)) = [] \<and>
   fault_at 0 order_world = None \<and>
   fst (deleteOrder 9 order_world) = Inl NotFound \<and>
   db (snd (deleteOrder 9 order_world)) = db order_world \<and>
   fault_free order_world \<and>
   filter (\<lambda>r. o_id r = 2) (orders (db order_world)) = [order_one] \<and>
   fst (deleteOrder 2 (snd (deleteOrder 2 order_world))) = Inl NotFound"
proof -
  have h: "filter (\<lambda>r. o_id r = 9) (orders (db order_world)) = []"
    by (simp add: order_world_def)
  have f: "fault_at 0 order_world = None"
    by (simp add: order_world_def fault_at_def)
  have g: "fault_free order_world \<and> filter (\<lambda>r. o_id r = 2) (orders (db order_world)) = [order_one]"
    by (simp add: order_world_def fault_free_def order_one_def)
  note a = deleteOrder_missing [where w = order_world and oid = 9 and ord = order_one, THEN conjunct1, THEN mp, OF h]
  note b = deleteOrder_missing [where w = order_world and oid = 2 and ord = order_one, THEN conjunct2, THEN mp, OF g]
  have "fst (deleteOrder 9 order_world) = Inl NotFound"
    by (rule a [THEN conjunct2, THEN conjunct1, THEN mp, OF f])
  moreover have "db (snd (deleteOrder 9 order_world)) = db order_world"
    by (rule a [THEN conjunct2, THEN conjunct2, THEN conjunct1])
  moreover have "fst (deleteOrder 2 (snd (deleteOrder 2 order_world))) = Inl NotFound"
    by (rule b [THEN conjunct1])
  ultimately show ?thesis
    using h f g by blast
qed

section \<open>Updating the status of an order\<close>

text \<open>
  C8. When the store answers, \<open>updateOrderStatus\<close> on the id of an order row writes the given
  status into that row, whatever the status written and whatever the status the row had,
  changes nothing else, and returns the updated row. On an id that no order row carries it
  fails with \<open>NotFound\<close> and changes nothing.
\<close>

theorem updateOrderStatus_unconditional:
  assumes "fault_at 0 w = None"
  shows "(filter (\<lambda>r. o_id r = oid) (orders (db w)) = [ord] \<longrightarrow>
      fst (updateOrderStatus oid s w) = Inr (Some (ord\<lparr>o_status := s\<rparr>)) \<and>
      db (snd (updateOrderStatus oid s w)) =
        (db w)\<lparr>orders := map (\<lambda>r. if o_id r = oid then r\<lparr>o_status := s\<rparr> else r) (orders (db w))\<rparr>) \<and>
    (filter (\<lambda>r. o_id r = oid) (orders (db w)) = [] \<longrightarrow>
      fst (updateOrderStatus oid s w) = Inl NotFound \<and>
      db (snd (updateOrderStatus oid s w)) = db w)"
proof (intro conjI impI)
  assume u: "filter (\<lambda>r. o_id r = oid) (orders (db w)) = [ord]"
  with assms show "fst (updateOrderStatus oid s w) = Inr (Some (ord\<lparr>o_status := s\<rparr>))"
    by (simp add: updateOrderStatus_def try_catch_def update_where_single_def store_call_next tabs
        single_def)
  from assms u show "db (snd (updateOrderStatus oid s w)) =
        (db w)\<lparr>orders := map (\<lambda>r. if o_id r = oid then r\<lparr>o_status := s\<rparr> else r) (orders (db w))\<rparr>"
    by (simp add: updateOrderStatus_def try_catch_def update_where_single_def store_call_next tabs
        single_def)
next
  assume f: "filter (\<lambda>r. o_id r = oid) (orders (db w)) = []"
  from assms f show "fst (updateOrderStatus oid s w) = Inl NotFound"
    by (simp add: updateOrderStatus_def try_catch_def update_where_single_def store_call_next tabs
        single_def)
  from assms f show "db (snd (updateOrderStatus oid s w)) = db w"
    by (simp add: updateOrderStatus_def try_catch_def update_where_single_def store_call_next tabs
        single_def console_error_def)
qed

theorem updateOrderStatus_unconditional_witness:
  "fault_at 0 order_world = None \<and>
   filter (\<lambda>r. o_id r = 2) (orders (db order_world)) = [order_one] \<and>
   o_status order_one = ''completed'' \<and>
   fst (updateOrderStatus 2 ''no such status'' order_world) =
     Inr (Some (order_one\<lparr>o_status := ''no such status''\<rparr>)) \<and>
   filter (\<lambda>r. o_id r = 9) (orders (db order_world)) = [] \<and>
   fst (updateOrderStatus 9 ''pending'' order_world) = Inl NotFound"
proof -
  have f: "fault_at 0 order_world = None"
    by (simp add: order_world_def fault_at_def)
  have h2: "filter (\<lambda>r. o_id r = 2) (orders (db order_world)) = [order_one]"
    by (simp add: order_world_def order_one_def)
  have h3: "filter (\<lambda>r. o_id r = 9) (orders (db order_world)) = []"
    by (simp add: order_world_def)
  show ?thesis
    using f h2 h3 updateOrderStatus_unconditional [OF f, of 2 order_one "''no such status''"]
      updateOrderStatus_unconditional [OF f, of 9 order_one "''pending''"]
    by (simp add: order_one_def)
qed

section \<open>Creating an order\<close>

text \<open>
  C10. With an empty or absent list of order items, and a store that answers the insert of
  the order, \<open>createOrder\<close> succeeds and returns the created order. Its only request is
  that insert: the table of order items is not written, and the store differs from the one
  before by the new order row alone. When no order item referenced the new identifier
  before, the new order owns no order item.
\<close>

theorem createOrder_without_items:
  assumes "fault_at 0 w = None" and "od_order_items d = None \<or> od_order_items d = Some []"
  shows "fst (createOrder d w) = Inr (Some (new_order d w)) \<and>
    trace (snd (createOrder d w)) = trace w @ [InsertSelectSingle ''orders''] \<and>
    db (snd (createOrder d w)) = (db w)\<lparr>orders := orders (db w) @ [new_order d w]\<rparr> \<and>
    (filter (\<lambda>i. oi_order_id i = next_id w) (order_items (db w)) = [] \<longrightarrow>
       filter (\<lambda>i. oi_order_id i = o_id (new_order d w)) (order_items (db (snd (createOrder d w)))) = [])"
  using assms
  by (auto simp add: Let_def createOrder_def try_catch_def insert_single_def store_call_next tabs new_order_def
      filter_empty_conv)

theorem createOrder_without_items_witness:
  "fault_at 0 order_world = None \<and>
   od_order_items (order_input (Some [])) = Some [] \<and>
   od_order_items (order_input None) = None \<and>
   fst (createOrder (order_input (Some [])) order_world) =
     Inr (Some (new_order (order_input (Some [])) order_world)) \<and>
   fst (createOrder (order_input None) order_world) =
     Inr (Some (new_order (order_input None) order_world)) \<and>
   order_items (db (snd (createOrder (order_input None) order_world))) = order_items (db order_world) \<and>
   filter (\<lambda>i. oi_order_id i = 100) (order_items (db (snd (createOrder (order_input None) order_world)))) = []"
proof -
  have f: "fault_at 0 order_world = None"
    by (simp add: order_world_def fault_at_def)
  have a: "od_order_items (order_input (Some [])) = None \<or> od_order_items (order_input (Some [])) = Some []"
    by (simp add: order_input_def)
  have b: "od_order_items (order_input None) = None \<or> od_order_items (order_input None) = Some []"
    by (simp add: order_input_def)
  have n: "next_id order_world = 100"
    "filter (\<lambda>i. oi_order_id i = 100) (order_items (db order_world)) = []"
    by (simp_all add: order_world_def)
  show ?thesis
    using f n createOrder_without_items [OF f a] createOrder_without_items [OF f b]
    by (simp add: order_input_def new_order_def)
qed

text \<open>
  C2, as the code has it. When the insert of the order is answered and the insert of the
  order items fails with the store error \<open>e\<close>, \<open>createOrder\<close> throws \<open>e\<close> itself, unchanged.
  The order row stays in the store: no request follows the failed insert, and the store
  differs from the one before by the new order row alone. The console receives the error
  twice, once under the message of the item insert.
\<close>

theorem createOrder_items_failure:
  assumes "pending w = None # Some e # rest" and "od_order_items d = Some its" and "its \<noteq> []"
  shows "fst (createOrder d w) = Inl e \<and>
    db (snd (createOrder d w)) = (db w)\<lparr>orders := orders (db w) @ [new_order d w]\<rparr> \<and>
    trace (snd (createOrder d w)) =
      trace w @ [InsertSelectSingle ''orders'', Insert ''order_items'' (length its)] \<and>
    console (snd (createOrder d w)) =
      console w @ [(''Error creating order items:'', e), (''Error in createOrder:'', e)]"
  using assms
  by (simp add: Let_def createOrder_def try_catch_def insert_single_def insert_rows_def store_call_def tabs
      new_order_def console_error_def)

theorem createOrder_items_failure_witness:
  "pending (order_world\<lparr>pending := [None, Some (StoreFailure ''timeout'')]\<rparr>) =
     None # Some (StoreFailure ''timeout'') # [] \<and>
   od_order_items (order_input (Some one_item)) = Some one_item \<and> one_item \<noteq> [] \<and>
   fst (createOrder (order_input (Some one_item))
          (order_world\<lparr>pending := [None, Some (StoreFailure ''timeout'')]\<rparr>)) =
     Inl (StoreFailure ''timeout'') \<and>
   length (orders (db (snd (createOrder (order_input (Some one_item))
          (order_world\<lparr>pending := [None, Some (StoreFailure ''timeout'')]\<rparr>))))) = 3"
proof -
  let ?w = "order_world\<lparr>pending := [None, Some (StoreFailure ''timeout'')]\<rparr>"
  have p: "pending ?w = None # Some (StoreFailure ''timeout'') # []" by simp
  have i: "od_order_items (order_input (Some one_item)) = Some one_item"
    by (simp add: order_input_def)
  have ne: "one_item \<noteq> []" by (simp add: one_item_def)
  have l: "length (orders (db order_world)) = 2" by (simp add: order_world_def)
  show ?thesis
    using p i ne l createOrder_items_failure [OF p i ne]
    by simp
qed

text \<open>
  C2, as the specification states it, asks for an error of a kind of its own that names the
  persisted order. The thrown value is the store's error: with the same store error, the
  run in which the order row was persisted (order ids 2, 3 and the new 100) throws the
  very value thrown by the run in which the insert of the order failed and nothing was
  persisted, and the very value thrown when the persisted order has the id 200.
\<close>

theorem createOrder_items_failure_counterexample:
  "fst (createOrder (order_input (Some one_item))
          (order_world\<lparr>pending := [None, Some (StoreFailure ''timeout'')]\<rparr>)) =
     Inl (StoreFailure ''timeout'') \<and>
   fst (createOrder (order_input (Some one_item))
          (order_world\<lparr>pending := [None, Some (StoreFailure ''timeout'')]\<rparr>)) =
   fst (createOrder (order_input (Some one_item))
          (order_world\<lparr>pending := [Some (StoreFailure ''timeout'')]\<rparr>)) \<and>
   map o_id (orders (db (snd (createOrder (order_input (Some one_item))
          (order_world\<lparr>pending := [None, Some (StoreFailure ''timeout'')]\<rparr>))))) = [2, 3, 100] \<and>
   map o_id (orders (db (snd (createOrder (order_input (Some one_item))
          (order_world\<lparr>pending := [Some (StoreFailure ''timeout'')]\<rparr>))))) = [2, 3] \<and>
   fst (createOrder (order_input (Some one_item))
          (order_world\<lparr>pending := [None, Some (StoreFailure ''timeout'')]\<rparr>)) =
   fst (createOrder (order_input (Some one_item))
          (order_world\<lparr>next_id := 200, pending := [None, Some (StoreFailure ''timeout'')]\<rparr>)) \<and>
   map o_id (orders (db (snd (createOrder (order_input (Some one_item))
          (order_world\<lparr>next_id := 200, pending := [None, Some (StoreFailure ''timeout'')]\<rparr>))))) =
     [2, 3, 200]"
  by (simp add: Let_def createOrder_def try_catch_def insert_single_def insert_rows_def store_call_def
      tabs console_error_def order_world_def order_input_def one_item_def)

section \<open>The add-on groups of a variant\<close>

lemma getVariantAddonGroups_run:
  "getVariantAddonGroups vid w =
     (case fault_at 0 w of
        Some e \<Rightarrow>
          (Inl e, w\<lparr>pending := tl (pending w),
                     trace := trace w @ [SelectSingle ''menu_item_variants'' (Eq ''id'' vid)],
                     console := console w @ [(''Error fetching variant addon groups:'', e)]\<rparr>)
      | None \<Rightarrow>
          (case single (filter (\<lambda>v. v_id v = vid) (menu_item_variants (db w))) of
             Inl e \<Rightarrow>
               (Inl e, w\<lparr>pending := tl (pending w),
                          trace := trace w @ [SelectSingle ''menu_item_variants'' (Eq ''id'' vid)],
                          console := console w @ [(''Error fetching variant addon groups:'', e)]\<rparr>)
           | Inr r \<Rightarrow>
               (Inr (map GroupRef (case v_addon_groups r of None \<Rightarrow> [] | Some gs \<Rightarrow> gs)),
                w\<lparr>pending := tl (pending w),
                  trace := trace w @ [SelectSingle ''menu_item_variants'' (Eq ''id'' vid)]\<rparr>)))"
proof (cases "fault_at 0 w")
  case None
  then show ?thesis
    by (simp add: getVariantAddonGroups_def try_catch_def select_single_def store_call_next tabs
        console_error_def split: sum.splits)
next
  case (Some e)
  then show ?thesis
    by (simp add: getVariantAddonGroups_def try_catch_def select_single_def store_call_fault tabs
        console_error_def)
qed

lemma getVariantAddonGroups_groups:
  "groups_or_empty (fst (getVariantAddonGroups vid w)) =
     (case fault_at 0 w of Some e \<Rightarrow> [] | None \<Rightarrow> resolved_groups (db w) vid)"
  by (simp add: getVariantAddonGroups_run groups_or_empty_def resolved_groups_def comp_def
      split: option.splits sum.splits)

lemma getVariantAddonGroups_db [simp]: "db (snd (getVariantAddonGroups vid w)) = db w"
  by (simp add: getVariantAddonGroups_run split: option.splits sum.splits)

lemma getVariantAddonGroups_pending [simp]:
  "pending (snd (getVariantAddonGroups vid w)) = tl (pending w)"
  by (simp add: getVariantAddonGroups_run split: option.splits sum.splits)

lemma getVariantAddonGroups_console:
  "\<exists>l. console (snd (getVariantAddonGroups vid w)) = console w @ l"
  by (simp add: getVariantAddonGroups_run split: option.splits sum.splits)

lemma getVariantAddonGroups_fault:
  "fault_at 0 w = Some e \<Longrightarrow> fst (getVariantAddonGroups vid w) = Inl e"
  by (simp add: getVariantAddonGroups_run)

text \<open>
  C5. For a variant whose identifier one row carries, and a store that answers, writing the
  group list \<open>[g1, g2]\<close> with \<open>updateVariantAddonGroups\<close> succeeds, and the read
  \<open>getVariantAddonGroups\<close> that follows succeeds with references whose group identifiers
  form the set \<open>{g1, g2}\<close>.
\<close>

theorem variant_addon_groups_roundtrip:
  assumes "fault_free w" and "filter (\<lambda>r. v_id r = vid) (menu_item_variants (db w)) = [row]"
  shows "fst (updateVariantAddonGroups vid [g1, g2] w) = Inr () \<and>
    (\<exists>refs. fst (getVariantAddonGroups vid (snd (updateVariantAddonGroups vid [g1, g2] w))) = Inr refs \<and>
       set (map addon_group_id refs) = {g1, g2})"
proof -
  let ?f = "\<lambda>r. r\<lparr>v_addon_groups := Some [g1, g2], v_updated_at := Some (clock w)\<rparr>"
  have run: "updateVariantAddonGroups vid [g1, g2] w =
      (Inr (), w\<lparr>db := (db w)\<lparr>menu_item_variants :=
                        map (\<lambda>r. if v_id r = vid then ?f r else r) (menu_item_variants (db w))\<rparr>,
                 pending := tl (pending w),
                 trace := trace w @ [Update ''menu_item_variants'' (Eq ''id'' vid)]\<rparr>)"
    using assms(1)
    by (simp add: fault_free_def updateVariantAddonGroups_def try_catch_def update_where_def
        store_call_ok tabs)
  let ?w = "snd (updateVariantAddonGroups vid [g1, g2] w)"
  have "fault_free ?w"
    using assms(1) by (simp add: run fault_free_def)
  then have ok: "fault_at 0 ?w = None"
    by (rule fault_free_at)
  have rows: "filter (\<lambda>v. v_id v = vid) (menu_item_variants (db ?w)) = [?f row]"
    using filter_map_upd [of "\<lambda>r. v_id r = vid" ?f "menu_item_variants (db w)"] assms(2)
    by (simp add: run)
  have "fst (getVariantAddonGroups vid ?w) = Inr (map GroupRef [g1, g2])"
    by (simp add: getVariantAddonGroups_run ok rows single_def)
  then show ?thesis
    by (simp add: run)
qed

theorem variant_addon_groups_roundtrip_witness:
  "fault_free catalog_world \<and>
   filter (\<lambda>r. v_id r = 41) (menu_item_variants (db catalog_world)) =
     [\<lparr>v_id = 41, v_menu_item_id = 5, v_name = ''Small'', v_additional_price = 0,
       v_image_url = [], v_display_order = 3, v_user_id = Some 8,
       v_addon_groups = None, v_updated_at = None\<rparr>] \<and>
   fst (updateVariantAddonGroups 41 [8, 7] catalog_world) = Inr () \<and>
   fst (getVariantAddonGroups 41 (snd (updateVariantAddonGroups 41 [8, 7] catalog_world))) =
     Inr [GroupRef 8, GroupRef 7]"
proof -
  have h: "fault_free catalog_world"
    by (simp add: catalog_world_def fault_free_def)
  have u: "filter (\<lambda>r. v_id r = 41) (menu_item_variants (db catalog_world)) =
     [\<lparr>v_id = 41, v_menu_item_id = 5, v_name = ''Small'', v_additional_price = 0,
       v_image_url = [], v_display_order = 3, v_user_id = Some 8,
       v_addon_groups = None, v_updated_at = None\<rparr>]"
    by (simp add: catalog_world_def)
  note t = variant_addon_groups_roundtrip [OF h u, of 8 7]
  have r: "fst (updateVariantAddonGroups 41 [8, 7] catalog_world) = Inr ()"
    by (rule t [THEN conjunct1])
  have g: "fst (getVariantAddonGroups 41 (snd (updateVariantAddonGroups 41 [8, 7] catalog_world))) =
     Inr [GroupRef 8, GroupRef 7]"
    by (simp add: updateVariantAddonGroups_def getVariantAddonGroups_def try_catch_def
        update_where_def select_single_def store_call_def single_def tabs catalog_world_def)
  show ?thesis
    using h u r g by blast
qed

section \<open>Hydrating the catalog\<close>

text \<open>The loop that resolves the add-on groups of a list of variants, unfolded by one round.\<close>

lemma load_addon_groups_Cons:
  "load_addon_groups (v # rest) w =
     (let r = getVariantAddonGroups (v_id v) w;
          w1 = (case fst r of
                  Inl e \<Rightarrow> console_error (''Error loading addon groups for variant '' @ dec (v_id v) @ '':'')
                             e (snd r)
                | Inr refs \<Rightarrow> snd r)
      in (v\<lparr>v_addon_groups := Some (groups_or_empty (fst r))\<rparr> # fst (load_addon_groups rest w1),
          snd (load_addon_groups rest w1)))"
  by (simp add: Let_def groups_or_empty_def split: prod.splits sum.splits)

declare load_addon_groups.simps(2) [simp del]

lemma load_addon_groups_run:
  "length (fst (load_addon_groups vs w)) = length vs \<and>
   (\<forall>i < length vs. fst (load_addon_groups vs w) ! i = hydrated (fault_at i w) (db w) (vs ! i)) \<and>
   db (snd (load_addon_groups vs w)) = db w \<and>
   pending (snd (load_addon_groups vs w)) = drop (length vs) (pending w)"
proof (induction vs arbitrary: w)
  case Nil
  show ?case by simp
next
  case (Cons v rest)
  let ?r = "getVariantAddonGroups (v_id v) w"
  let ?w1 = "case fst ?r of
               Inl e \<Rightarrow> console_error (''Error loading addon groups for variant '' @ dec (v_id v) @ '':'')
                          e (snd ?r)
             | Inr refs \<Rightarrow> snd ?r"
  have d1: "db ?w1 = db w"
    by (simp add: console_error_def split: sum.splits)
  have p1: "pending ?w1 = tl (pending w)"
    by (simp add: console_error_def split: sum.splits)
  note IH = Cons.IH [of ?w1]
  have run: "load_addon_groups (v # rest) w =
      (v\<lparr>v_addon_groups := Some (groups_or_empty (fst ?r))\<rparr> # fst (load_addon_groups rest ?w1),
       snd (load_addon_groups rest ?w1))"
    by (simp only: load_addon_groups_Cons Let_def)
  have len: "length (fst (load_addon_groups (v # rest) w)) = length (v # rest)"
    using IH by (simp only: run) simp
  have nth: "\<forall>i < length (v # rest). fst (load_addon_groups (v # rest) w) ! i =
      hydrated (fault_at i w) (db w) ((v # rest) ! i)"
  proof (intro allI impI)
    fix i assume "i < length (v # rest)"
    show "fst (load_addon_groups (v # rest) w) ! i = hydrated (fault_at i w) (db w) ((v # rest) ! i)"
    proof (cases i)
      case 0
      then show ?thesis
        by (simp only: run) (simp add: getVariantAddonGroups_groups hydrated_def)
    next
      case (Suc j)
      with \<open>i < length (v # rest)\<close> have j: "j < length rest" by simp
      from IH j have "fst (load_addon_groups rest ?w1) ! j =
        hydrated (fault_at j ?w1) (db ?w1) (rest ! j)"
        by blast
      then show ?thesis
        by (simp only: run Suc d1 fault_at_tl [OF p1]) simp
    qed
  qed
  have dbs: "db (snd (load_addon_groups (v # rest) w)) = db w"
    using IH by (simp only: run d1) simp
  have pend: "pending (snd (load_addon_groups (v # rest) w)) = drop (length (v # rest)) (pending w)"
    using IH by (simp only: run p1) (simp add: drop_Suc)
  from len nth dbs pend show ?case by blast
qed

lemma load_addon_groups_console:
  "\<exists>l. console (snd (load_addon_groups vs w)) = console w @ l"
proof (induction vs arbitrary: w)
  case Nil
  show ?case by simp
next
  case (Cons v rest)
  let ?r = "getVariantAddonGroups (v_id v) w"
  let ?w1 = "case fst ?r of
               Inl e \<Rightarrow> console_error (''Error loading addon groups for variant '' @ dec (v_id v) @ '':'')
                          e (snd ?r)
             | Inr refs \<Rightarrow> snd ?r"
  obtain l0 where l0: "console (snd ?r) = console w @ l0"
    using getVariantAddonGroups_console by blast
  then obtain l1 where l1: "console ?w1 = console w @ l1"
    by (cases "fst ?r") (simp_all add: console_error_def)
  obtain l2 where "console (snd (load_addon_groups rest ?w1)) = console ?w1 @ l2"
    using Cons.IH [of ?w1] by blast
  then have "console (snd (load_addon_groups (v # rest) w)) = console w @ (l1 @ l2)"
    by (simp only: load_addon_groups_Cons Let_def snd_conv l1 append_assoc)
  then show ?case by blast
qed

lemma load_addon_groups_logged:
  "i < length vs \<Longrightarrow> fault_at i w = Some e \<Longrightarrow>
   (load_message (vs ! i), e) \<in> set (console (snd (load_addon_groups vs w)))"
proof (induction vs arbitrary: w i)
  case Nil
  then show ?case by simp
next
  case (Cons v rest)
  let ?r = "getVariantAddonGroups (v_id v) w"
  let ?w1 = "case fst ?r of
               Inl e \<Rightarrow> console_error (''Error loading addon groups for variant '' @ dec (v_id v) @ '':'')
                          e (snd ?r)
             | Inr refs \<Rightarrow> snd ?r"
  have p1: "pending ?w1 = tl (pending w)"
    by (simp add: console_error_def split: sum.splits)
  have run: "snd (load_addon_groups (v # rest) w) = snd (load_addon_groups rest ?w1)"
    by (simp only: load_addon_groups_Cons Let_def snd_conv)
  show ?case
  proof (cases i)
    case 0
    with Cons.prems have "fst ?r = Inl e"
      by (simp add: getVariantAddonGroups_fault)
    then have "(load_message v, e) \<in> set (console ?w1)"
      by (simp add: console_error_def load_message_def)
    moreover obtain l where "console (snd (load_addon_groups rest ?w1)) = console ?w1 @ l"
      using load_addon_groups_console by blast
    ultimately show ?thesis
      by (simp add: run 0)
  next
    case (Suc j)
    with Cons.prems have j: "j < length rest" and f: "fault_at j ?w1 = Some e"
      by (simp_all add: fault_at_tl [OF p1])
    from Cons.IH [OF j f] show ?thesis
      by (simp add: run Suc)
  qed
qed

lemma getMenuItemVariants_run:
  assumes "fault_at 0 w = None"
  shows "getMenuItemVariants mid w =
    (Inr (fst (load_addon_groups (variants_of (db w) mid)
                 (w\<lparr>pending := tl (pending w),
                    trace := trace w @ [Select ''menu_item_variants'' (Eq ''menu_item_id'' mid)]\<rparr>))),
     snd (load_addon_groups (variants_of (db w) mid)
            (w\<lparr>pending := tl (pending w),
               trace := trace w @ [Select ''menu_item_variants'' (Eq ''menu_item_id'' mid)]\<rparr>)))"
  using assms
  by (simp add: getMenuItemVariants_def try_catch_def select_where_order_def store_call_next tabs
      variants_of_def Let_def split: prod.splits)

lemma getMenuItemVariants_hydrates:
  assumes "fault_at 0 w = None"
  shows "\<exists>vs. fst (getMenuItemVariants mid w) = Inr vs \<and>
    length vs = length (variants_of (db w) mid) \<and>
    (\<forall>i < length (variants_of (db w) mid).
       vs ! i = hydrated (fault_at (Suc i) w) (db w) (variants_of (db w) mid ! i)) \<and>
    (\<forall>i < length (variants_of (db w) mid). \<forall>e. fault_at (Suc i) w = Some e \<longrightarrow>
       (load_message (variants_of (db w) mid ! i), e) \<in> set (console (snd (getMenuItemVariants mid w)))) \<and>
    db (snd (getMenuItemVariants mid w)) = db w \<and>
    pending (snd (getMenuItemVariants mid w)) = drop (Suc (length (variants_of (db w) mid))) (pending w) \<and>
    (\<exists>l. console (snd (getMenuItemVariants mid w)) = console w @ l)"
proof -
  let ?w0 = "w\<lparr>pending := tl (pending w),
               trace := trace w @ [Select ''menu_item_variants'' (Eq ''menu_item_id'' mid)]\<rparr>"
  let ?rows = "variants_of (db w) mid"
  have p0: "pending ?w0 = tl (pending w)" by simp
  note run = getMenuItemVariants_run [OF assms, of mid]
  note L = load_addon_groups_run [of ?rows ?w0]
  have "fst (getMenuItemVariants mid w) = Inr (fst (load_addon_groups ?rows ?w0))"
    by (simp add: run)
  moreover have "length (fst (load_addon_groups ?rows ?w0)) = length ?rows"
    using L by blast
  moreover have "\<forall>i < length ?rows.
      fst (load_addon_groups ?rows ?w0) ! i = hydrated (fault_at (Suc i) w) (db w) (?rows ! i)"
    using L by (simp add: fault_at_tl [OF p0])
  moreover have "\<forall>i < length ?rows. \<forall>e. fault_at (Suc i) w = Some e \<longrightarrow>
      (load_message (?rows ! i), e) \<in> set (console (snd (getMenuItemVariants mid w)))"
    using load_addon_groups_logged [of _ ?rows ?w0]
    by (simp add: run fault_at_tl [OF p0])
  moreover have "db (snd (getMenuItemVariants mid w)) = db w"
    using L by (simp add: run)
  moreover have "pending (snd (getMenuItemVariants mid w)) = drop (Suc (length ?rows)) (pending w)"
    using L by (simp add: run drop_Suc drop_tl)
  moreover have "\<exists>l. console (snd (getMenuItemVariants mid w)) = console w @ l"
    using load_addon_groups_console [of ?rows ?w0] by (simp add: run)
  ultimately show ?thesis by blast
qed









section \<open>Saving the variants of an item\<close>

lemma saveMenuItemVariants_run:
  assumes "fault_free w"
  shows "fst (saveMenuItemVariants item vs w) = Inr True"
    and "trace (snd (saveMenuItemVariants item vs w)) =
      trace w @ Delete ''menu_item_variants'' (Eq ''menu_item_id'' item) #
        (if vs = [] then [] else [Insert ''menu_item_variants'' (length vs)])"
    and "db (snd (saveMenuItemVariants item vs w)) =
      (db w)\<lparr>menu_item_variants :=
        filter (\<lambda>v. v_menu_item_id v \<noteq> item) (menu_item_variants (db w)) @
        fresh_rows (next_id w)
          (map (\<lambda>(index, variant) id.
                  \<lparr>v_id = id, v_menu_item_id = item, v_name = vi_name variant,
                   v_additional_price = vi_additional_price variant,
                   v_image_url = vi_image_url variant,
                   v_display_order = int index, v_user_id = current_user w,
                   v_addon_groups = None, v_updated_at = None\<rparr>)
             (enumerate 0 vs))\<rparr>"
    and "fault_free (snd (saveMenuItemVariants item vs w))"
  using assms
  by (simp_all add: fault_free_def saveMenuItemVariants_def try_catch_def delete_where_def
      insert_rows_def store_call_ok tabs Let_def fresh_rows_def)

text \<open>
  C4. On a store that answers, \<open>saveMenuItemVariants\<close> with a list of \<open>N\<close> variants succeeds.
  It first issues the delete of the item's variant rows and then, when the list is not
  empty, one insert of \<open>N\<close> rows. Afterwards the table holds the rows of the other items as
  they were, followed by \<open>N\<close> new rows of the item, the \<open>i\<close>-th with display order \<open>i\<close> and
  the name, price and image of the \<open>i\<close>-th variant of the list. The variant fetch that
  follows returns exactly \<open>N\<close> variants, the \<open>i\<close>-th with display order \<open>i\<close> and the data of
  the \<open>i\<close>-th variant of the list.
\<close>

theorem saveMenuItemVariants_replaces:
  assumes "fault_free w"
  shows "fst (saveMenuItemVariants item vs w) = Inr True \<and>
    trace (snd (saveMenuItemVariants item vs w)) =
      trace w @ Delete ''menu_item_variants'' (Eq ''menu_item_id'' item) #
        (if vs = [] then [] else [Insert ''menu_item_variants'' (length vs)]) \<and>
    (\<exists>new.
       menu_item_variants (db (snd (saveMenuItemVariants item vs w))) =
         filter (\<lambda>v. v_menu_item_id v \<noteq> item) (menu_item_variants (db w)) @ new \<and>
       length new = length vs \<and>
       (\<forall>i < length vs.
          v_menu_item_id (new ! i) = item \<and> v_display_order (new ! i) = int i \<and>
          v_name (new ! i) = vi_name (vs ! i) \<and>
          v_additional_price (new ! i) = vi_additional_price (vs ! i) \<and>
          v_image_url (new ! i) = vi_image_url (vs ! i))) \<and>
    (\<exists>fetched.
       fst (getMenuItemVariants item (snd (saveMenuItemVariants item vs w))) = Inr fetched \<and>
       length fetched = length vs \<and>
       (\<forall>i < length vs.
          v_menu_item_id (fetched ! i) = item \<and> v_display_order (fetched ! i) = int i \<and>
          v_name (fetched ! i) = vi_name (vs ! i) \<and>
          v_additional_price (fetched ! i) = vi_additional_price (vs ! i) \<and>
          v_image_url (fetched ! i) = vi_image_url (vs ! i)))"
proof -
  let ?w = "snd (saveMenuItemVariants item vs w)"
  let ?g = "\<lambda>(index, variant) id.
                  \<lparr>v_id = id, v_menu_item_id = item, v_name = vi_name variant,
                   v_additional_price = vi_additional_price variant,
                   v_image_url = vi_image_url variant,
                   v_display_order = int index, v_user_id = current_user w,
                   v_addon_groups = None, v_updated_at = None\<rparr>"
  let ?new = "fresh_rows (next_id w) (map ?g (enumerate 0 vs))"
  let ?old = "filter (\<lambda>v. v_menu_item_id v \<noteq> item) (menu_item_variants (db w))"
  note run = saveMenuItemVariants_run [OF assms, of item vs]
  have len: "length ?new = length vs" by simp
  have nth: "\<And>i. i < length vs \<Longrightarrow> ?new ! i = ?g (i, vs ! i) (next_id w + i)"
    by (simp add: fresh_rows_nth nth_enumerate_eq)
  have fields: "\<forall>i < length vs.
          v_menu_item_id (?new ! i) = item \<and> v_display_order (?new ! i) = int i \<and>
          v_name (?new ! i) = vi_name (vs ! i) \<and>
          v_additional_price (?new ! i) = vi_additional_price (vs ! i) \<and>
          v_image_url (?new ! i) = vi_image_url (vs ! i)"
    by (simp add: nth)
  have tab: "menu_item_variants (db ?w) = ?old @ ?new"
    by (simp add: run(3))
  have all_item: "\<forall>v \<in> set ?new. v_menu_item_id v = item"
    unfolding all_set_conv_all_nth using fields len by simp
  have "sorted (map v_display_order ?new)"
    unfolding sorted_iff_nth_mono using fields len by simp
  then have sorted_new: "sort_key v_display_order ?new = ?new"
    by (rule sort_key_id_if_sorted)
  have rows: "variants_of (db ?w) item = ?new"
    using all_item by (simp add: variants_of_def tab sorted_new)
  have ok: "\<And>k. fault_at k ?w = None"
    using run(4) by (rule fault_free_at)
  obtain fetched where f: "fst (getMenuItemVariants item ?w) = Inr fetched"
    "length fetched = length (variants_of (db ?w) item)"
    "\<forall>i < length (variants_of (db ?w) item).
       fetched ! i = hydrated (fault_at (Suc i) ?w) (db ?w) (variants_of (db ?w) item ! i)"
    using getMenuItemVariants_hydrates [OF ok, of item] by blast
  have "\<forall>i < length vs.
          v_menu_item_id (fetched ! i) = item \<and> v_display_order (fetched ! i) = int i \<and>
          v_name (fetched ! i) = vi_name (vs ! i) \<and>
          v_additional_price (fetched ! i) = vi_additional_price (vs ! i) \<and>
          v_image_url (fetched ! i) = vi_image_url (vs ! i)"
    using f(3) fields by (simp only: rows len) simp
  moreover have "length fetched = length vs"
    using f(2) by (simp only: rows len)
  ultimately show ?thesis
    using run(1,2) tab len fields f(1) by blast
qed

theorem saveMenuItemVariants_replaces_witness:
  "fault_free catalog_world \<and>
   fst (saveMenuItemVariants 5 three_variants catalog_world) = Inr True \<and>
   map v_id (menu_item_variants (db (snd (saveMenuItemVariants 5 three_variants catalog_world)))) =
     [42, 100, 101, 102] \<and>
   map_sum id (map (\<lambda>v. (v_name v, v_display_order v)))
     (fst (getMenuItemVariants 5 (snd (saveMenuItemVariants 5 three_variants catalog_world)))) =
     Inr [(''S'', 0), (''M'', 1), (''L'', 2)]"
proof -
  have h: "fault_free catalog_world"
    by (simp add: catalog_world_def fault_free_def)
  note t = saveMenuItemVariants_replaces [OF h, of 5 three_variants]
  have r: "fst (saveMenuItemVariants 5 three_variants catalog_world) = Inr True"
    by (rule t [THEN conjunct1])
  have s: "snd (saveMenuItemVariants 5 three_variants catalog_world) =
     catalog_world\<lparr>db := (db catalog_world)\<lparr>menu_item_variants :=
        [\<lparr>v_id = 42, v_menu_item_id = 6, v_name = ''Single size'', v_additional_price = 0,
          v_image_url = [], v_display_order = 0, v_user_id = Some 8,
          v_addon_groups = Some [8], v_updated_at = None\<rparr>,
         \<lparr>v_id = 100, v_menu_item_id = 5, v_name = ''S'', v_additional_price = 0,
          v_image_url = [], v_display_order = 0, v_user_id = Some 8,
          v_addon_groups = None, v_updated_at = None\<rparr>,
         \<lparr>v_id = 101, v_menu_item_id = 5, v_name = ''M'', v_additional_price = 100,
          v_image_url = [], v_display_order = 1, v_user_id = Some 8,
          v_addon_groups = None, v_updated_at = None\<rparr>,
         \<lparr>v_id = 102, v_menu_item_id = 5, v_name = ''L'', v_additional_price = 200,
          v_image_url = ''l.png'', v_display_order = 2, v_user_id = Some 8,
          v_addon_groups = None, v_updated_at = None\<rparr>]\<rparr>,
       next_id := 103,
       trace := [Delete ''menu_item_variants'' (Eq ''menu_item_id'' 5),
                 Insert ''menu_item_variants'' 3]\<rparr>"
    by (simp add: saveMenuItemVariants_def run_defs catalog_world_def three_variants_def
        enumerate_eq_zip)
  have f: "map_sum id (map (\<lambda>v. (v_name v, v_display_order v)))
     (fst (getMenuItemVariants 5 (snd (saveMenuItemVariants 5 three_variants catalog_world)))) =
     Inr [(''S'', 0), (''M'', 1), (''L'', 2)]"
    unfolding s
    by (simp add: getMenuItemVariants_def getVariantAddonGroups_def load_addon_groups.simps
        run_defs catalog_world_def)
  show ?thesis
    using h r f unfolding s by (simp add: catalog_world_def)
qed

end
